theory Spec2Isabelle
  imports Complex_Main
begin

section \<open>Text: decimal integers, joining and splitting\<close>

text \<open>
  Both scripts exchange data as semicolon-separated text.  Strings are character
  lists; the line feed is written \<open>CHR 0x0A\<close>.  \<open>show_nat\<close> is what an f-string and
  \<open>str\<close> print for a non-negative Python int, \<open>show_int\<close> adds the sign.
\<close>

definition digit_char :: "nat \<Rightarrow> char" where
  "digit_char d = ''0123456789'' ! (d mod 10)"

function show_nat :: "nat \<Rightarrow> string" where
  "show_nat n =
     (if n < 10 then [digit_char n] else show_nat (n div 10) @ [digit_char (n mod 10)])"
  by pat_completeness auto
termination
  by (relation "measure id") auto

declare show_nat.simps [simp del]

definition show_int :: "int \<Rightarrow> string" where
  "show_int i = (if i < 0 then CHR ''-'' # show_nat (nat (- i)) else show_nat (nat i))"

definition LF :: char where
  "LF = CHR 0x0A"

fun join :: "char \<Rightarrow> string list \<Rightarrow> string" where
  "join sep [] = []"
| "join sep [x] = x"
| "join sep (x # y # ys) = x @ sep # join sep (y # ys)"

fun split_on :: "char \<Rightarrow> string \<Rightarrow> string list" where
  "split_on sep [] = [[]]"
| "split_on sep (c # cs) =
     (if c = sep then [] # split_on sep cs
      else (c # hd (split_on sep cs)) # tl (split_on sep cs))"

definition unlines :: "string list \<Rightarrow> string" where
  "unlines ls = concat (map (\<lambda>l. l @ [LF]) ls)"

text \<open>
  The physical lines of a text: the pieces between line feeds, where a final line
  feed ends the last line instead of opening an empty one.
\<close>

definition lines_of :: "string \<Rightarrow> string list" where
  "lines_of text =
     (let ps = split_on LF text in if last ps = [] then butlast ps else ps)"

section \<open>Data frames\<close>

text \<open>
  A pandas DataFrame is modelled as its columns in order, each a name with its cells.
  A cell is a float64 value, an int64 value or the missing value NaN.  The type \<open>'f\<close> of
  float64 values is left open: the scripts never compute with them, they only draw,
  print, parse and compare them.
\<close>

datatype 'f cell = F64 'f | I64 int | NaN

type_synonym 'f frame = "(string \<times> 'f cell list) list"

datatype error = ValueError | KeyError | ParserError | FileNotFoundError

definition nrows :: "'f frame \<Rightarrow> nat" where
  "nrows df = (case df of [] \<Rightarrow> 0 | (_, vs) # _ \<Rightarrow> length vs)"

text \<open>
  \<^verbatim>\<open>df[name] = values\<close>: a new column is appended, an existing one replaced in place;
  on a frame that already has columns the length must match (ValueError otherwise).
\<close>

definition setitem :: "'f frame \<Rightarrow> string \<Rightarrow> 'f cell list \<Rightarrow> error + 'f frame" where
  "setitem df name vs =
     (if df \<noteq> [] \<and> length vs \<noteq> nrows df then Inl ValueError
      else if name \<in> fst ` set df
        then Inr (map (\<lambda>(n, old). if n = name then (n, vs) else (n, old)) df)
        else Inr (df @ [(name, vs)]))"

text \<open>\<^verbatim>\<open>df[name]\<close>: the column, KeyError when there is none of that name.\<close>

definition getitem :: "'f frame \<Rightarrow> string \<Rightarrow> error + 'f cell list" where
  "getitem df name = (case map_of df name of None \<Rightarrow> Inl KeyError | Some vs \<Rightarrow> Inr vs)"

text \<open>
  \<^verbatim>\<open>Series.unique()\<close>: the distinct values in order of first appearance (all NaN
  count as one value).
\<close>

fun unique_from :: "'a list \<Rightarrow> 'a list \<Rightarrow> 'a list" where
  "unique_from seen [] = []"
| "unique_from seen (x # xs) =
     (if x \<in> set seen then unique_from seen xs else x # unique_from (x # seen) xs)"

definition unique :: "'a list \<Rightarrow> 'a list" where
  "unique xs = unique_from [] xs"

text \<open>
  \<^verbatim>\<open>pd.concat(dfs)\<close>: ValueError on an empty list; otherwise the rows of the frames one
  after the other, under the union of their columns in order of first appearance, a
  frame contributing NaN for a column it lacks.
\<close>

definition concat_frames :: "'f frame list \<Rightarrow> error + 'f frame" where
  "concat_frames dfs =
     (if dfs = [] then Inl ValueError
      else Inr (map (\<lambda>n. (n, concat (map (\<lambda>df. case map_of df n of
                                               Some vs \<Rightarrow> vs
                                             | None \<Rightarrow> replicate (nrows df) NaN) dfs)))
                    (unique (concat (map (map fst) dfs)))))"

section \<open>Writing CSV\<close>

text \<open>
  How float64 values are printed and parsed is the library's business; it is a
  parameter of the model.
\<close>

record 'f float_text =
  float_repr :: "'f \<Rightarrow> string"
  float_parse :: "string \<Rightarrow> 'f option"

definition fmt_cell :: "'f float_text \<Rightarrow> 'f cell \<Rightarrow> string" where
  "fmt_cell ft c = (case c of F64 v \<Rightarrow> float_repr ft v | I64 i \<Rightarrow> show_int i | NaN \<Rightarrow> [])"

fun select_columns :: "'f frame \<Rightarrow> string list \<Rightarrow> error + 'f frame" where
  "select_columns df [] = Inr []"
| "select_columns df (c # cs) =
     (case map_of df c of
        None \<Rightarrow> Inl KeyError
      | Some vs \<Rightarrow>
          (case select_columns df cs of Inl e \<Rightarrow> Inl e | Inr rest \<Rightarrow> Inr ((c, vs) # rest)))"

definition csv_row :: "'f float_text \<Rightarrow> char \<Rightarrow> 'f frame \<Rightarrow> nat \<Rightarrow> string" where
  "csv_row ft sep df r = join sep (map (\<lambda>(n, vs). fmt_cell ft (vs ! r)) df)"

text \<open>
  \<^verbatim>\<open>to_csv(..., index=False)\<close> writes the header line of column names and one line per
  row, no index column, each line ended by a line feed.
\<close>

definition csv_lines :: "'f float_text \<Rightarrow> char \<Rightarrow> 'f frame \<Rightarrow> string list" where
  "csv_lines ft sep df = join sep (map fst df) # map (csv_row ft sep df) [0..<nrows df]"

definition to_csv :: "'f float_text \<Rightarrow> char \<Rightarrow> 'f frame \<Rightarrow> string list option \<Rightarrow> error + string" where
  "to_csv ft sep df columns =
     (case columns of
        None \<Rightarrow> Inr (unlines (csv_lines ft sep df))
      | Some cols \<Rightarrow>
          (case select_columns df cols of
             Inl e \<Rightarrow> Inl e
           | Inr sub \<Rightarrow> Inr (unlines (csv_lines ft sep sub))))"

section \<open>Programs with effects\<close>

text \<open>
  A script is run for what it does to the world: the directories it makes, the files
  it writes, the plotting calls it issues.  A run is the list of these effects in
  order, with the exception that ended it or the value it returned.
\<close>

datatype 'f effect =
    Mkdir string
  | Pairplot "'f frame" string
  | PltShow
  | WriteFile string string
  | Subplots nat nat
  | Scatter nat "'f cell list" "'f cell list" "string option" "nat option" "string option"
  | SetTitle nat string

type_synonym ('f, 'a) run = "'f effect list \<times> (error + 'a)"

definition emit :: "'f effect \<Rightarrow> ('f, unit) run" where
  "emit e = ([e], Inr ())"

definition lift :: "error + 'a \<Rightarrow> ('f, 'a) run" where
  "lift r = ([], r)"

definition and_then :: "('f, 'a) run \<Rightarrow> ('a \<Rightarrow> ('f, 'b) run) \<Rightarrow> ('f, 'b) run" where
  "and_then m k =
     (case m of
        (t, Inl e) \<Rightarrow> (t, Inl e)
      | (t, Inr x) \<Rightarrow> (case k x of (t', r) \<Rightarrow> (t @ t', r)))"

fun for_each :: "'a list \<Rightarrow> ('a \<Rightarrow> ('f, unit) run) \<Rightarrow> ('f, unit) run" where
  "for_each [] body = lift (Inr ())"
| "for_each (x # xs) body = and_then (body x) (\<lambda>_. for_each xs body)"

record os_path =
  os_dirname :: "string \<Rightarrow> string"
  os_abspath :: "string \<Rightarrow> string"
  os_exists :: "string \<Rightarrow> bool"

text \<open>Both scripts compute the same directory from their own location.\<close>

definition out_path :: "os_path \<Rightarrow> string \<Rightarrow> string" where
  "out_path os file = os_abspath os (os_dirname os file @ ''/../files'')"

section \<open>The generator (gen\_ex\_data.py)\<close>

definition N_SAMPLES :: nat where
  "N_SAMPLES = 100"

definition N_DIMS :: nat where
  "N_DIMS = 2"

definition N_CLASSES :: nat where
  "N_CLASSES = 3"

text \<open>
  numpy's global random generator: a state of type \<open>'s\<close> and the two samplers the
  script calls.  An array of \<open>n\<close> draws is \<open>n\<close> draws in a row, the state threaded
  through.
\<close>

record ('f, 's) np_random =
  np_uniform :: "real \<Rightarrow> real \<Rightarrow> 's \<Rightarrow> 'f \<times> 's"
  np_normal :: "'f \<Rightarrow> 'f \<Rightarrow> 's \<Rightarrow> 'f \<times> 's"

fun draws :: "nat \<Rightarrow> ('s \<Rightarrow> 'f \<times> 's) \<Rightarrow> 's \<Rightarrow> 'f list \<times> 's" where
  "draws 0 sample st = ([], st)"
| "draws (Suc n) sample st =
     (case sample st of (x, st1) \<Rightarrow>
        (case draws n sample st1 of (xs, st2) \<Rightarrow> (x # xs, st2)))"

text \<open>The inner loop over \<^verbatim>\<open>enumerate(zip(stds, locs))\<close>: one feature column per dimension.\<close>

fun feature_loop ::
  "('f, 's) np_random \<Rightarrow> (nat \<times> 'f \<times> 'f) list \<Rightarrow> 'f frame \<Rightarrow> 's \<Rightarrow> error + ('f frame \<times> 's)" where
  "feature_loop rng [] tmp st = Inr (tmp, st)"
| "feature_loop rng ((i, std, loc) # rest) tmp st =
     (case draws N_SAMPLES (np_normal rng loc std) st of (vals, st1) \<Rightarrow>
        (case setitem tmp (''feature_'' @ show_nat i) (map F64 vals) of
           Inl e \<Rightarrow> Inl e
         | Inr tmp1 \<Rightarrow> feature_loop rng rest tmp1 st1))"

text \<open>The body of the loop over the classes: the frame of one class.\<close>

definition gen_class :: "('f, 's) np_random \<Rightarrow> nat \<Rightarrow> 's \<Rightarrow> error + ('f frame \<times> 's)" where
  "gen_class rng cls st =
     (case draws N_DIMS (np_uniform rng 0.0 1.0) st of (locs, st1) \<Rightarrow>
      case draws N_DIMS (np_uniform rng 0.0 0.15) st1 of (stds, st2) \<Rightarrow>
      case feature_loop rng (enumerate 0 (zip stds locs)) [] st2 of
        Inl e \<Rightarrow> Inl e
      | Inr (tmp, st3) \<Rightarrow>
          (case setitem tmp ''cls'' (map (\<lambda>i. I64 (int cls)) [0..<N_SAMPLES]) of
             Inl e \<Rightarrow> Inl e
           | Inr tmp1 \<Rightarrow> Inr (tmp1, st3)))"

fun class_loop ::
  "('f, 's) np_random \<Rightarrow> nat list \<Rightarrow> 'f frame list \<Rightarrow> 's \<Rightarrow> error + ('f frame list \<times> 's)" where
  "class_loop rng [] dfs st = Inr (dfs, st)"
| "class_loop rng (cls # rest) dfs st =
     (case gen_class rng cls st of
        Inl e \<Rightarrow> Inl e
      | Inr (tmp, st1) \<Rightarrow> class_loop rng rest (dfs @ [tmp]) st1)"

text \<open>Lines 19 to 30: the frames of all classes, concatenated.\<close>

definition build_dataset :: "('f, 's) np_random \<Rightarrow> 's \<Rightarrow> error + 'f frame" where
  "build_dataset rng st =
     (case class_loop rng [0..<N_CLASSES] [] st of
        Inl e \<Rightarrow> Inl e
      | Inr (dfs, st1) \<Rightarrow> concat_frames dfs)"

definition feature_names :: "string list" where
  "feature_names = map (\<lambda>i. ''feature_'' @ show_nat i) [0..<N_DIMS]"

text \<open>
  The whole script.  \<open>file\<close> is the script's own path (\<^verbatim>\<open>__file__\<close>), \<open>argv\<close> is
  \<^verbatim>\<open>sys.argv\<close>, \<open>st\<close> the state of the random generator at start.
\<close>

definition generator ::
  "os_path \<Rightarrow> ('f, 's) np_random \<Rightarrow> 'f float_text \<Rightarrow> string \<Rightarrow> string list \<Rightarrow> 's \<Rightarrow> ('f, unit) run" where
  "generator os rng ft file argv st =
     and_then (if \<not> os_exists os (out_path os file)
               then emit (Mkdir (out_path os file)) else lift (Inr ())) (\<lambda>_.
     and_then (lift (build_dataset rng st)) (\<lambda>df.
     and_then (if ''--plot'' \<in> set argv
               then and_then (emit (Pairplot df ''cls'')) (\<lambda>_. emit PltShow)
               else lift (Inr ())) (\<lambda>_.
     and_then (lift (to_csv ft (CHR '';'') df (Some feature_names))) (\<lambda>text1.
     and_then (emit (WriteFile (out_path os file @ ''/sample_data.csv'') text1)) (\<lambda>_.
     and_then (lift (to_csv ft (CHR '';'') df None)) (\<lambda>text2.
     emit (WriteFile (out_path os file @ ''/ground_truth.csv'') text2)))))))"

text \<open>The files a run wrote, in order.\<close>

fun written :: "'f effect list \<Rightarrow> (string \<times> string) list" where
  "written [] = []"
| "written (WriteFile p c # es) = (p, c) # written es"
| "written (e # es) = written es"

section \<open>Reading CSV\<close>

text \<open>
  \<^verbatim>\<open>pd.read_csv(path, sep=..., names=..., dtype="float", skiprows=...)\<close> on text
  without quoted fields and with line-feed line ends.  The reader drops the first
  \<open>skiprows\<close> physical lines, then every line of blanks and tabs only
  (\<^verbatim>\<open>skip_blank_lines\<close> is on by default); what is left are the records, each split
  into its fields at the separator.
\<close>

definition blank_line :: "string \<Rightarrow> bool" where
  "blank_line l = list_all (\<lambda>c. c = CHR '' '' \<or> c = CHR 0x09) l"

definition records :: "nat \<Rightarrow> string \<Rightarrow> string list" where
  "records skiprows text = filter (\<lambda>l. \<not> blank_line l) (drop skiprows (lines_of text))"

text \<open>The strings pandas reads as a missing value unless told otherwise.\<close>

definition na_values :: "string list" where
  "na_values =
     ['''', ''#N/A'', ''#N/A N/A'', ''#NA'', ''-1.#IND'', ''-1.#QNAN'', ''-NaN'', ''-nan'',
      ''1.#IND'', ''1.#QNAN'', ''<NA>'', ''N/A'', ''NA'', ''NULL'', ''NaN'', ''None'', ''n/a'',
      ''nan'', ''null'']"

text \<open>
  One field under \<^verbatim>\<open>dtype="float"\<close>: a missing-value marker gives NaN, any other
  string must parse as a float (ValueError otherwise).
\<close>

definition to_float :: "'f float_text \<Rightarrow> string \<Rightarrow> error + 'f cell" where
  "to_float ft s =
     (if s \<in> set na_values then Inr NaN
      else case float_parse ft s of None \<Rightarrow> Inl ValueError | Some v \<Rightarrow> Inr (F64 v))"

fun convert_all :: "('a \<Rightarrow> error + 'b) \<Rightarrow> 'a list \<Rightarrow> error + 'b list" where
  "convert_all f [] = Inr []"
| "convert_all f (x # xs) =
     (case f x of
        Inl e \<Rightarrow> Inl e
      | Inr y \<Rightarrow> (case convert_all f xs of Inl e \<Rightarrow> Inl e | Inr ys \<Rightarrow> Inr (y # ys)))"

text \<open>A record shorter than the table is filled up with empty fields.\<close>

definition field :: "string list \<Rightarrow> nat \<Rightarrow> string" where
  "field r j = (if j < length r then r ! j else [])"

text \<open>
  The table is as wide as the first record, and at least as wide as \<open>names\<close>; a later
  record with more fields is a ParserError.  Every column is converted to float.
  When the table is wider than \<open>names\<close>, the names go to the last columns and the
  leading ones become the index.
\<close>

definition read_csv ::
  "'f float_text \<Rightarrow> char \<Rightarrow> string list \<Rightarrow> nat \<Rightarrow> string \<Rightarrow> error + 'f frame" where
  "read_csv ft sep names skiprows text =
     (let rows = map (split_on sep) (records skiprows text);
          width = (case rows of [] \<Rightarrow> length names | r # _ \<Rightarrow> max (length r) (length names))
      in if \<exists>r \<in> set rows. width < length r then Inl ParserError
         else case convert_all (\<lambda>j. convert_all (\<lambda>r. to_float ft (field r j)) rows) [0..<width] of
                Inl e \<Rightarrow> Inl e
              | Inr cols \<Rightarrow> Inr (zip names (drop (width - length names) cols)))"

text \<open>The files on disk: a path has a content or there is no such file.\<close>

type_synonym files = "string \<Rightarrow> string option"

definition read_csv_file ::
  "files \<Rightarrow> 'f float_text \<Rightarrow> string \<Rightarrow> char \<Rightarrow> string list \<Rightarrow> nat \<Rightarrow> error + 'f frame" where
  "read_csv_file fs ft path sep names skiprows =
     (case fs path of
        None \<Rightarrow> Inl FileNotFoundError
      | Some text \<Rightarrow> read_csv ft sep names skiprows text)"

section \<open>The comparator (plot\_comparison.py)\<close>

text \<open>
  Elementwise \<^verbatim>\<open>==\<close> on a float column: NaN equals nothing, itself included.  The
  comparator only ever compares cells of float columns.
\<close>

definition py_eq :: "'f cell \<Rightarrow> 'f cell \<Rightarrow> bool" where
  "py_eq a b = (a \<noteq> NaN \<and> b \<noteq> NaN \<and> a = b)"

text \<open>\<^verbatim>\<open>df[mask]\<close>: the rows where the mask holds.\<close>

definition filter_rows :: "'f frame \<Rightarrow> bool list \<Rightarrow> 'f frame" where
  "filter_rows df keep = map (\<lambda>(n, vs). (n, map fst (filter snd (zip vs keep)))) df"

text \<open>The body of both plotting loops: the rows of one class as one scatter series.\<close>

definition scatter_class :: "nat \<Rightarrow> 'f frame \<Rightarrow> 'f cell \<Rightarrow> ('f, unit) run" where
  "scatter_class ax df c =
     and_then (lift (getitem df ''cls'')) (\<lambda>col.
     and_then (lift (getitem (filter_rows df (map (\<lambda>v. py_eq v c) col)) ''feature_1'')) (\<lambda>xs.
     and_then (lift (getitem (filter_rows df (map (\<lambda>v. py_eq v c) col)) ''feature_2'')) (\<lambda>ys.
     emit (Scatter ax xs ys None None None))))"

definition scatter_classes :: "nat \<Rightarrow> 'f frame \<Rightarrow> ('f, unit) run" where
  "scatter_classes ax df =
     and_then (lift (getitem df ''cls'')) (\<lambda>col. for_each (unique col) (scatter_class ax df))"

text \<open>Lines 7 to 13: the three reads, in the order of the script.\<close>

definition load_inputs ::
  "os_path \<Rightarrow> 'f float_text \<Rightarrow> string \<Rightarrow> files \<Rightarrow> error + ('f frame \<times> 'f frame \<times> 'f frame)" where
  "load_inputs os ft file fs =
     (case read_csv_file fs ft (out_path os file @ ''/predicted_classes.csv'') (CHR '';'')
             [''feature_1'', ''feature_2'', ''cls''] 0 of
        Inl e \<Rightarrow> Inl e
      | Inr prediction \<Rightarrow>
     (case read_csv_file fs ft (out_path os file @ ''/ground_truth.csv'') (CHR '';'')
             [''feature_1'', ''feature_2'', ''cls''] 1 of
        Inl e \<Rightarrow> Inl e
      | Inr ground_truth \<Rightarrow>
     (case read_csv_file fs ft (out_path os file @ ''/clusters.csv'') (CHR '';'')
             [''feature_1'', ''feature_2''] 0 of
        Inl e \<Rightarrow> Inl e
      | Inr cluster_centers \<Rightarrow> Inr (prediction, ground_truth, cluster_centers))))"

text \<open>Lines 14 to 28: the figure.\<close>

definition draw_figure :: "'f frame \<Rightarrow> 'f frame \<Rightarrow> 'f frame \<Rightarrow> ('f, unit) run" where
  "draw_figure prediction ground_truth cluster_centers =
     and_then (emit (Subplots 2 1)) (\<lambda>_.
     and_then (scatter_classes 0 prediction) (\<lambda>_.
     and_then (scatter_classes 1 ground_truth) (\<lambda>_.
     and_then (lift (getitem cluster_centers ''feature_1'')) (\<lambda>cx.
     and_then (lift (getitem cluster_centers ''feature_2'')) (\<lambda>cy.
     and_then (emit (Scatter 0 cx cy (Some ''red'') (Some 50) (Some ''x''))) (\<lambda>_.
     and_then (emit (SetTitle 0 ''Prediction'')) (\<lambda>_.
     and_then (emit (SetTitle 1 ''Ground Truth'')) (\<lambda>_.
     emit PltShow))))))))"

definition comparator :: "os_path \<Rightarrow> 'f float_text \<Rightarrow> string \<Rightarrow> files \<Rightarrow> ('f, unit) run" where
  "comparator os ft file fs =
     and_then (lift (load_inputs os ft file fs)) (\<lambda>(prediction, ground_truth, cluster_centers).
       draw_figure prediction ground_truth cluster_centers)"

text \<open>The scatter series a run drew on one subplot.\<close>

fun is_scatter_on :: "nat \<Rightarrow> 'f effect \<Rightarrow> bool" where
  "is_scatter_on ax (Scatter a xs ys col sz mk) = (a = ax)"
| "is_scatter_on ax e = False"

fun marker_of :: "'f effect \<Rightarrow> string option" where
  "marker_of (Scatter a xs ys col sz mk) = mk"
| "marker_of e = None"

fun color_of :: "'f effect \<Rightarrow> string option" where
  "color_of (Scatter a xs ys col sz mk) = col"
| "color_of e = None"

text \<open>The plotting calls of the generator.\<close>

fun is_plot :: "'f effect \<Rightarrow> bool" where
  "is_plot (Pairplot df hue) = True"
| "is_plot PltShow = True"
| "is_plot e = False"

section \<open>Plain fields\<close>

text \<open>
  A field that \<^verbatim>\<open>to_csv\<close> writes as it is and \<^verbatim>\<open>read_csv\<close> reads back as one field:
  no separator, no line end and no quote character in it.
\<close>

definition CR :: char where
  "CR = CHR 0x0D"

definition plain_field :: "string \<Rightarrow> bool" where
  "plain_field s = list_all (\<lambda>c. c \<notin> set [CHR '';'', LF, CR, CHR 0x22]) s"

text \<open>Text made of decimal digits and the minus sign only.\<close>

definition decimal_text :: "string \<Rightarrow> bool" where
  "decimal_text s = list_all (\<lambda>c. c \<in> set ''-0123456789'') s"

section \<open>A concrete instance\<close>

text \<open>
  The model's parameters are instantiated here once, for examples: float values that
  are whole numbers printed in decimal, a random generator that counts, and a script
  that lives in \<^verbatim>\<open>/repo/scripts\<close>.
\<close>

definition digit_value :: "char \<Rightarrow> nat option" where
  "digit_value c =
     map_of [(CHR ''0'', 0), (CHR ''1'', 1), (CHR ''2'', 2), (CHR ''3'', 3), (CHR ''4'', 4),
             (CHR ''5'', 5), (CHR ''6'', 6), (CHR ''7'', 7), (CHR ''8'', 8), (CHR ''9'', 9)] c"

fun parse_nat_from :: "nat \<Rightarrow> string \<Rightarrow> nat option" where
  "parse_nat_from acc [] = Some acc"
| "parse_nat_from acc (c # cs) =
     (case digit_value c of None \<Rightarrow> None | Some d \<Rightarrow> parse_nat_from (10 * acc + d) cs)"

definition parse_nat :: "string \<Rightarrow> nat option" where
  "parse_nat s = (if s = [] then None else parse_nat_from 0 s)"

definition parse_int :: "string \<Rightarrow> int option" where
  "parse_int s =
     (case s of
        [] \<Rightarrow> None
      | c # cs \<Rightarrow>
          if c = CHR ''-'' then map_option (\<lambda>n. - int n) (parse_nat cs)
          else map_option int (parse_nat s))"

definition int_text :: "int float_text" where
  "int_text = \<lparr>float_repr = show_int, float_parse = parse_int\<rparr>"

definition counter_rng :: "(int, int) np_random" where
  "counter_rng =
     \<lparr>np_uniform = (\<lambda>low high st. (st, st + 1)),
      np_normal = (\<lambda>loc scale st. (loc + st, st + 1))\<rparr>"

definition repo_os :: os_path where
  "repo_os =
     \<lparr>os_dirname = (\<lambda>p. ''/repo/scripts''),
      os_abspath = (\<lambda>p. ''/repo/files''),
      os_exists = (\<lambda>p. False)\<rparr>"

text \<open>
  Three small input files for the comparator: four predictions in three classes, the
  ground truth of the same four points under a header line, and three cluster centres.
\<close>

definition example_files :: files where
  "example_files = map_of
     [(''/repo/files/predicted_classes.csv'',
         unlines [''1;2;0'', ''3;4;1'', ''5;6;2'', ''7;8;0'']),
      (''/repo/files/ground_truth.csv'',
         unlines [''feature_0;feature_1;cls'', ''1;2;0'', ''3;4;1'', ''5;6;2'', ''7;8;0'']),
      (''/repo/files/clusters.csv'',
         unlines [''4;5'', ''3;4'', ''5;6''])]"

section \<open>Lemmas: the generator\<close>

lemma show_nat_digit: "n < 10 \<Longrightarrow> show_nat n = [digit_char n]"
  by (simp add: show_nat.simps)

lemma show_nat_0: "show_nat 0 = ''0''"
  by (simp add: show_nat_digit digit_char_def)

lemma show_nat_1: "show_nat (Suc 0) = ''1''"
  by (simp add: show_nat_digit digit_char_def)

lemma length_draws: "length (fst (draws n sample st)) = n"
proof (induction n arbitrary: st)
  case 0
  show ?case by simp
next
  case (Suc n)
  obtain x st1 where s: "sample st = (x, st1)" by (cases "sample st")
  obtain xs st2 where d: "draws n sample st1 = (xs, st2)" by (cases "draws n sample st1")
  from Suc [of st1] d have "length xs = n" by simp
  with s d show ?case by simp
qed

lemma draws_ex:
  obtains xs st' where "draws n sample st = (xs, st')" and "length xs = n"
  using length_draws [of n sample st] by (cases "draws n sample st") auto

lemma draws_2:
  obtains a b st' where "draws 2 sample st = ([a, b], st')"
proof -
  obtain xs st' where d: "draws 2 sample st = (xs, st')" by (cases "draws 2 sample st")
  with length_draws [of 2 sample st] have "length xs = Suc (Suc 0)" by simp
  then obtain a b where "xs = [a, b]" by (auto simp: length_Suc_conv)
  with d that show thesis by simp
qed

lemma gen_class_frame:
  obtains xs ys st' where "length xs = N_SAMPLES" and "length ys = N_SAMPLES" and
    "gen_class rng cls st =
       Inr ([(''feature_0'', map F64 xs), (''feature_1'', map F64 ys),
             (''cls'', replicate N_SAMPLES (I64 (int cls)))], st')"
proof -
  obtain l0 l1 st1 where d1: "draws N_DIMS (np_uniform rng 0.0 1.0) st = ([l0, l1], st1)"
    unfolding N_DIMS_def by (rule draws_2)
  obtain s0 s1 st2 where d2: "draws N_DIMS (np_uniform rng 0.0 0.15) st1 = ([s0, s1], st2)"
    unfolding N_DIMS_def by (rule draws_2)
  obtain xs st3 where d3: "draws N_SAMPLES (np_normal rng l0 s0) st2 = (xs, st3)" "length xs = N_SAMPLES"
    by (rule draws_ex)
  obtain ys st4 where d4: "draws N_SAMPLES (np_normal rng l1 s1) st3 = (ys, st4)" "length ys = N_SAMPLES"
    by (rule draws_ex)
  have "gen_class rng cls st =
       Inr ([(''feature_0'', map F64 xs), (''feature_1'', map F64 ys),
             (''cls'', replicate N_SAMPLES (I64 (int cls)))], st4)"
    using d1 d2 d3 d4
    by (simp add: gen_class_def setitem_def nrows_def show_nat_0 show_nat_1 map_replicate_const)
  with d3 d4 that show thesis by blast
qed


lemma upt_3: "[0..<3] = [0, Suc 0, 2]"
  by (simp add: upt_rec)

lemma build_dataset_frame:
  obtains xs ys where "length xs = N_CLASSES * N_SAMPLES" and "length ys = N_CLASSES * N_SAMPLES" and
    "build_dataset rng st =
       Inr [(''feature_0'', map F64 xs), (''feature_1'', map F64 ys),
            (''cls'', concat (map (\<lambda>c. replicate N_SAMPLES (I64 (int c))) [0..<N_CLASSES]))]"
proof -
  obtain x0 y0 st1 where g0: "length x0 = N_SAMPLES" "length y0 = N_SAMPLES"
    "gen_class rng 0 st = Inr ([(''feature_0'', map F64 x0), (''feature_1'', map F64 y0),
             (''cls'', replicate N_SAMPLES (I64 (int 0)))], st1)"
    by (rule gen_class_frame)
  obtain x1 y1 st2 where g1: "length x1 = N_SAMPLES" "length y1 = N_SAMPLES"
    "gen_class rng (Suc 0) st1 = Inr ([(''feature_0'', map F64 x1), (''feature_1'', map F64 y1),
             (''cls'', replicate N_SAMPLES (I64 (int (Suc 0))))], st2)"
    by (rule gen_class_frame)
  obtain x2 y2 st3 where g2: "length x2 = N_SAMPLES" "length y2 = N_SAMPLES"
    "gen_class rng 2 st2 = Inr ([(''feature_0'', map F64 x2), (''feature_1'', map F64 y2),
             (''cls'', replicate N_SAMPLES (I64 (int 2)))], st3)"
    by (rule gen_class_frame)
  have "build_dataset rng st =
       Inr [(''feature_0'', map F64 (x0 @ x1 @ x2)), (''feature_1'', map F64 (y0 @ y1 @ y2)),
            (''cls'', concat (map (\<lambda>c. replicate N_SAMPLES (I64 (int c))) [0..<N_CLASSES]))]"
    using g0(3) g1(3) g2(3)
    by (simp add: build_dataset_def N_CLASSES_def upt_3 concat_frames_def unique_def)
  moreover have "length (x0 @ x1 @ x2) = N_CLASSES * N_SAMPLES" "length (y0 @ y1 @ y2) = N_CLASSES * N_SAMPLES"
    using g0 g1 g2 by (simp_all add: N_CLASSES_def)
  ultimately show thesis using that by blast
qed

lemma feature_names_eq: "feature_names = [''feature_0'', ''feature_1'']"
  by (simp add: feature_names_def N_DIMS_def numeral_2_eq_2 show_nat_0 show_nat_1)

lemma generator_trace:
  assumes "build_dataset rng st =
       Inr [(''feature_0'', c0), (''feature_1'', c1), (''cls'', c2)]"
  shows "generator os rng ft file argv st =
     ((if os_exists os (out_path os file) then [] else [Mkdir (out_path os file)]) @
      (if ''--plot'' \<in> set argv
       then [Pairplot [(''feature_0'', c0), (''feature_1'', c1), (''cls'', c2)] ''cls'', PltShow]
       else []) @
      [WriteFile (out_path os file @ ''/sample_data.csv'')
         (unlines (csv_lines ft (CHR '';'') [(''feature_0'', c0), (''feature_1'', c1)])),
       WriteFile (out_path os file @ ''/ground_truth.csv'')
         (unlines (csv_lines ft (CHR '';'') [(''feature_0'', c0), (''feature_1'', c1), (''cls'', c2)]))],
      Inr ())"
  using assms
  by (simp add: generator_def and_then_def emit_def lift_def to_csv_def feature_names_eq)

section \<open>Lemmas: text\<close>

lemma split_on_not_Nil: "split_on sep s \<noteq> []"
  by (induction s) auto


lemma split_on_append: "sep \<notin> set a \<Longrightarrow> split_on sep (a @ sep # b) = a # split_on sep b"
  by (induction a) auto


lemma split_on_unlines:
  "\<forall>l \<in> set ls. LF \<notin> set l \<Longrightarrow> split_on LF (unlines ls) = ls @ [[]]"
  by (induction ls) (simp_all add: unlines_def split_on_append)

lemma lines_of_unlines: "\<forall>l \<in> set ls. LF \<notin> set l \<Longrightarrow> lines_of (unlines ls) = ls"
  by (simp add: lines_of_def split_on_unlines)

lemma length_concat_replicate:
  "length (concat (map (\<lambda>c. replicate n (f c)) [0..<k])) = k * n"
  by (induction k) simp_all

lemma nth_concat_replicate:
  "r < k * n \<Longrightarrow> concat (map (\<lambda>c. replicate n (f c)) [0..<k]) ! r = f (r div n)"
proof (induction k)
  case 0
  then show ?case by simp
next
  case (Suc k)
  show ?case
  proof (cases "r < k * n")
    case True
    with Suc.IH show ?thesis by (simp add: nth_append length_concat_replicate)
  next
    case False
    with Suc.prems have "r - k * n < n" "r div n = k"
      by (auto simp: div_nat_eqI mult.commute)
    with False show ?thesis by (simp add: nth_append length_concat_replicate)
  qed
qed

section \<open>Lemmas: plain fields\<close>

lemma digit_char_in: "digit_char d \<in> set ''0123456789''"
  unfolding digit_char_def by (rule nth_mem) simp

lemma decimal_digit: "decimal_text [digit_char d]"
  using digit_char_in [of d] by (simp add: decimal_text_def)

lemma decimal_append: "decimal_text (a @ b) = (decimal_text a \<and> decimal_text b)"
  by (simp add: decimal_text_def)

lemma decimal_show_nat: "decimal_text (show_nat n)"
proof (induction n rule: show_nat.induct)
  case (1 n)
  show ?case
  proof (cases "n < 10")
    case True
    then show ?thesis by (simp add: show_nat.simps decimal_digit)
  next
    case False
    with 1 have "decimal_text (show_nat (n div 10))" by simp
    with False show ?thesis
      by (subst show_nat.simps) (simp add: decimal_append decimal_digit)
  qed
qed

lemma decimal_show_int: "decimal_text (show_int i)"
  using decimal_show_nat [of "nat i"] decimal_show_nat [of "nat (- i)"]
  by (simp add: show_int_def decimal_text_def)

lemma plain_char: "c \<in> set ''-0123456789'' \<Longrightarrow> c \<notin> set [CHR '';'', LF, CR, CHR 0x22]"
  by (auto simp: LF_def CR_def)

lemma decimal_plain: "decimal_text s \<Longrightarrow> plain_field s"
  unfolding decimal_text_def plain_field_def list_all_iff
  using plain_char by blast

lemma plain_show_int: "plain_field (show_int i)"
  by (rule decimal_plain) (rule decimal_show_int)





lemma plain_no_LF: "plain_field s \<Longrightarrow> LF \<notin> set s"
  unfolding plain_field_def list_all_iff by fastforce


lemma plain_fmt_cell:
  assumes "\<forall>v. plain_field (float_repr ft v)"
  shows "plain_field (fmt_cell ft c)"
proof (cases c)
  case (F64 v)
  then show ?thesis using assms by (simp add: fmt_cell_def)
next
  case (I64 i)
  then show ?thesis by (simp add: fmt_cell_def plain_show_int)
next
  case NaN
  then show ?thesis by (simp add: fmt_cell_def plain_field_def)
qed

lemma join_no_LF:
  "sep \<noteq> LF \<Longrightarrow> \<forall>f \<in> set fs. LF \<notin> set f \<Longrightarrow> LF \<notin> set (join sep fs)"
  by (induction sep fs rule: join.induct) simp_all

section \<open>The generator: what it writes\<close>

lemma csv_lines_no_LF:
  assumes "\<forall>v. plain_field (float_repr ft v)" and "\<forall>n \<in> fst ` set df. LF \<notin> set n"
  shows "\<forall>l \<in> set (csv_lines ft (CHR '';'') df). LF \<notin> set l"
proof -
  have sep: "CHR '';'' \<noteq> LF" by (simp add: LF_def)
  have hdr: "LF \<notin> set (join (CHR '';'') (map fst df))"
    using assms(2) by (intro join_no_LF [OF sep]) auto
  have row: "LF \<notin> set (csv_row ft (CHR '';'') df r)" for r
    unfolding csv_row_def
    by (intro join_no_LF [OF sep]) (auto simp: plain_no_LF plain_fmt_cell [OF assms(1)])
  show ?thesis using hdr row by (auto simp: csv_lines_def)
qed

lemma length_csv_lines: "length (csv_lines ft sep df) = Suc (nrows df)"
  by (simp add: csv_lines_def)

text \<open>
  Claim C2.  Every run of the generator succeeds and writes two files, and the number
  of data rows (the lines after the header line) is the same in \<^verbatim>\<open>sample_data.csv\<close>
  and \<^verbatim>\<open>ground_truth.csv\<close>, namely \<open>N_CLASSES * N_SAMPLES = 300\<close>.  This holds for the
  rows the writer emits, and for the physical lines of the two texts whenever floats
  print as plain fields.
\<close>

theorem C2_row_counts:
  "\<exists>df sub.
     build_dataset rng st = Inr df \<and>
     select_columns df feature_names = Inr sub \<and>
     snd (generator os rng ft file argv st) = Inr () \<and>
     written (fst (generator os rng ft file argv st)) =
       [(out_path os file @ ''/sample_data.csv'', unlines (csv_lines ft (CHR '';'') sub)),
        (out_path os file @ ''/ground_truth.csv'', unlines (csv_lines ft (CHR '';'') df))] \<and>
     length (tl (csv_lines ft (CHR '';'') sub)) = N_CLASSES * N_SAMPLES \<and>
     length (tl (csv_lines ft (CHR '';'') df)) = N_CLASSES * N_SAMPLES \<and>
     N_CLASSES * N_SAMPLES = 300 \<and>
     ((\<forall>v. plain_field (float_repr ft v)) \<longrightarrow>
        length (tl (lines_of (unlines (csv_lines ft (CHR '';'') sub)))) = 300 \<and>
        length (tl (lines_of (unlines (csv_lines ft (CHR '';'') df)))) = 300)"
proof -
  obtain xs ys where len: "length xs = N_CLASSES * N_SAMPLES" "length ys = N_CLASSES * N_SAMPLES"
    and ds: "build_dataset rng st =
       Inr [(''feature_0'', map F64 xs), (''feature_1'', map F64 ys),
            (''cls'', concat (map (\<lambda>c. replicate N_SAMPLES (I64 (int c))) [0..<N_CLASSES]))]"
    by (rule build_dataset_frame)
  let ?df = "[(''feature_0'', map F64 xs), (''feature_1'', map F64 ys),
            (''cls'', concat (map (\<lambda>c. replicate N_SAMPLES (I64 (int c))) [0..<N_CLASSES]))]"
  let ?sub = "[(''feature_0'', map F64 xs), (''feature_1'', map F64 ys)]"
  have sel: "select_columns ?df feature_names = Inr ?sub"
    by (simp add: feature_names_eq)
  have run: "snd (generator os rng ft file argv st) = Inr ()"
    "written (fst (generator os rng ft file argv st)) =
       [(out_path os file @ ''/sample_data.csv'', unlines (csv_lines ft (CHR '';'') ?sub)),
        (out_path os file @ ''/ground_truth.csv'', unlines (csv_lines ft (CHR '';'') ?df))]"
    by (simp_all add: generator_trace [OF ds])
  have n: "N_CLASSES * N_SAMPLES = 300" by (simp add: N_CLASSES_def N_SAMPLES_def)
  have r1: "length (tl (csv_lines ft (CHR '';'') ?sub)) = N_CLASSES * N_SAMPLES"
    and r2: "length (tl (csv_lines ft (CHR '';'') ?df)) = N_CLASSES * N_SAMPLES"
    using len by (simp_all add: length_csv_lines nrows_def)
  have textual: "length (tl (lines_of (unlines (csv_lines ft (CHR '';'') ?sub)))) = 300 \<and>
        length (tl (lines_of (unlines (csv_lines ft (CHR '';'') ?df)))) = 300"
    if pl: "\<forall>v. plain_field (float_repr ft v)"
  proof -
    have "\<forall>l \<in> set (csv_lines ft (CHR '';'') ?sub). LF \<notin> set l"
      by (rule csv_lines_no_LF [OF pl]) (simp add: LF_def)
    moreover have "\<forall>l \<in> set (csv_lines ft (CHR '';'') ?df). LF \<notin> set l"
      by (rule csv_lines_no_LF [OF pl]) (simp add: LF_def)
    ultimately show ?thesis using r1 r2 n by (simp add: lines_of_unlines)
  qed
  from ds sel run n r1 r2 textual show ?thesis by blast
qed

theorem C2_row_counts_witness:
  "(\<forall>v. plain_field (float_repr int_text v)) \<and>
   (\<exists>df sub.
      build_dataset counter_rng 0 = Inr df \<and>
      select_columns df feature_names = Inr sub \<and>
      length (tl (lines_of (unlines (csv_lines int_text (CHR '';'') sub)))) = 300 \<and>
      length (tl (lines_of (unlines (csv_lines int_text (CHR '';'') df)))) = 300)"
proof -
  have plain: "\<forall>v. plain_field (float_repr int_text v)"
    by (simp add: int_text_def plain_show_int)
  with C2_row_counts [of counter_rng 0 repo_os int_text "''/repo/scripts/gen_ex_data.py''"
      "[''gen_ex_data.py'']"]
  show ?thesis by blast
qed

lemma csv_row_dataset:
  "csv_row ft (CHR '';'') [(''feature_0'', map F64 xs), (''feature_1'', map F64 ys), (''cls'', cs)] r =
     fmt_cell ft (map F64 xs ! r) @ '';'' @ fmt_cell ft (map F64 ys ! r) @ '';'' @ fmt_cell ft (cs ! r)"
  by (simp add: csv_row_def)

lemma csv_row_features:
  "csv_row ft (CHR '';'') [(''feature_0'', map F64 xs), (''feature_1'', map F64 ys)] r =
     fmt_cell ft (map F64 xs ! r) @ '';'' @ fmt_cell ft (map F64 ys ! r)"
  by (simp add: csv_row_def)

text \<open>
  Claim C3.  In every run the \<open>cls\<close> column of the data set is, class by class in the
  order of generation, \<open>N_SAMPLES\<close> copies of the class number: row \<open>r\<close> holds the integer
  \<open>r div N_SAMPLES\<close>, which lies in \<open>[0, N_CLASSES)\<close>, and the line of that row in
  \<^verbatim>\<open>ground_truth.csv\<close> ends with that integer.  Nothing shuffles the rows.
\<close>

theorem C3_class_labels:
  "\<exists>df xs ys labels.
     build_dataset rng st = Inr df \<and>
     df = [(''feature_0'', map F64 xs), (''feature_1'', map F64 ys), (''cls'', labels)] \<and>
     labels = concat (map (\<lambda>c. replicate N_SAMPLES (I64 (int c))) [0..<N_CLASSES]) \<and>
     length labels = N_CLASSES * N_SAMPLES \<and>
     written (fst (generator os rng ft file argv st)) ! 1 =
       (out_path os file @ ''/ground_truth.csv'', unlines (csv_lines ft (CHR '';'') df)) \<and>
     (\<forall>r < N_CLASSES * N_SAMPLES.
        r div N_SAMPLES < N_CLASSES \<and>
        labels ! r = I64 (int (r div N_SAMPLES)) \<and>
        csv_lines ft (CHR '';'') df ! Suc r =
          float_repr ft (xs ! r) @ '';'' @ float_repr ft (ys ! r) @ '';'' @
          show_int (int (r div N_SAMPLES)))"
proof -
  obtain xs ys where len: "length xs = N_CLASSES * N_SAMPLES" "length ys = N_CLASSES * N_SAMPLES"
    and ds: "build_dataset rng st =
       Inr [(''feature_0'', map F64 xs), (''feature_1'', map F64 ys),
            (''cls'', concat (map (\<lambda>c. replicate N_SAMPLES (I64 (int c))) [0..<N_CLASSES]))]"
    by (rule build_dataset_frame)
  let ?labels = "concat (map (\<lambda>c. replicate N_SAMPLES (I64 (int c))) [0..<N_CLASSES]) :: 'a cell list"
  let ?df = "[(''feature_0'', map F64 xs), (''feature_1'', map F64 ys), (''cls'', ?labels)]"
  have ll: "length ?labels = N_CLASSES * N_SAMPLES"
    by (rule length_concat_replicate)
  have wr: "written (fst (generator os rng ft file argv st)) ! 1 =
       (out_path os file @ ''/ground_truth.csv'', unlines (csv_lines ft (CHR '';'') ?df))"
    by (simp add: generator_trace [OF ds])
  have rows: "r div N_SAMPLES < N_CLASSES \<and>
        ?labels ! r = I64 (int (r div N_SAMPLES)) \<and>
        csv_lines ft (CHR '';'') ?df ! Suc r =
          float_repr ft (xs ! r) @ '';'' @ float_repr ft (ys ! r) @ '';'' @
          show_int (int (r div N_SAMPLES))" if r: "r < N_CLASSES * N_SAMPLES" for r
  proof -
    have d: "r div N_SAMPLES < N_CLASSES"
      using r by (simp add: less_mult_imp_div_less)
    have l: "?labels ! r = I64 (int (r div N_SAMPLES))"
      using r by (rule nth_concat_replicate)
    have "csv_lines ft (CHR '';'') ?df ! Suc r = csv_row ft (CHR '';'') ?df r"
      using r len by (simp add: csv_lines_def nrows_def)
    with l r len d show ?thesis
      by (simp add: csv_row_dataset fmt_cell_def)
  qed
  from ds ll wr rows show ?thesis by blast
qed

theorem C3_class_labels_witness:
  "(150::nat) < N_CLASSES * N_SAMPLES \<and>
   (\<exists>df xs ys labels.
      build_dataset counter_rng 0 = Inr df \<and>
      df = [(''feature_0'', map F64 xs), (''feature_1'', map F64 ys), (''cls'', labels)] \<and>
      labels ! 150 = I64 1 \<and>
      csv_lines int_text (CHR '';'') df ! 151 =
        show_int (xs ! 150) @ '';'' @ show_int (ys ! 150) @ '';'' @ ''1'')"
proof -
  have r: "(150::nat) < N_CLASSES * N_SAMPLES" and d: "150 div N_SAMPLES = 1"
    by (simp_all add: N_CLASSES_def N_SAMPLES_def)
  have one: "show_int 1 = ''1''"
    by (simp add: show_int_def show_nat_1)
  from C3_class_labels [of counter_rng 0 repo_os int_text "''/repo/scripts/gen_ex_data.py''"
      "[''gen_ex_data.py'']"]
  obtain df xs ys labels where
    "build_dataset counter_rng 0 = Inr df"
    "df = [(''feature_0'', map F64 xs), (''feature_1'', map F64 ys), (''cls'', labels)]"
    "\<forall>r < N_CLASSES * N_SAMPLES.
        r div N_SAMPLES < N_CLASSES \<and>
        labels ! r = I64 (int (r div N_SAMPLES)) \<and>
        csv_lines int_text (CHR '';'') df ! Suc r =
          float_repr int_text (xs ! r) @ '';'' @ float_repr int_text (ys ! r) @ '';'' @
          show_int (int (r div N_SAMPLES))"
    by blast
  note got = this
  from got(3) r have "labels ! 150 = I64 (int (150 div N_SAMPLES))"
    and "csv_lines int_text (CHR '';'') df ! Suc 150 =
          float_repr int_text (xs ! 150) @ '';'' @ float_repr int_text (ys ! 150) @ '';'' @
          show_int (int (150 div N_SAMPLES))"
    by blast+
  with d one have "labels ! 150 = I64 1"
    and "csv_lines int_text (CHR '';'') df ! 151 =
        show_int (xs ! 150) @ '';'' @ show_int (ys ! 150) @ '';'' @ ''1''"
    by (simp_all add: int_text_def)
  with got(1,2) r show ?thesis by blast
qed

text \<open>
  Claim C4.  \<^verbatim>\<open>sample_data.csv\<close> has the header line \<^verbatim>\<open>feature_0;feature_1\<close> and its rows
  hold the two feature values separated by a semicolon: there is no \<open>cls\<close> column.
  \<^verbatim>\<open>ground_truth.csv\<close> has the same rows in the same order, each followed by exactly one
  more field, the class label, under the header \<^verbatim>\<open>feature_0;feature_1;cls\<close>.
\<close>

theorem C4_file_layout:
  "\<exists>df sub xs ys.
     build_dataset rng st = Inr df \<and>
     select_columns df feature_names = Inr sub \<and>
     map fst sub = [''feature_0'', ''feature_1''] \<and>
     map fst df = [''feature_0'', ''feature_1'', ''cls''] \<and>
     written (fst (generator os rng ft file argv st)) =
       [(out_path os file @ ''/sample_data.csv'', unlines (csv_lines ft (CHR '';'') sub)),
        (out_path os file @ ''/ground_truth.csv'', unlines (csv_lines ft (CHR '';'') df))] \<and>
     length (csv_lines ft (CHR '';'') sub) = length (csv_lines ft (CHR '';'') df) \<and>
     csv_lines ft (CHR '';'') sub ! 0 = ''feature_0;feature_1'' \<and>
     csv_lines ft (CHR '';'') df ! 0 = ''feature_0;feature_1;cls'' \<and>
     (\<forall>r < N_CLASSES * N_SAMPLES.
        csv_lines ft (CHR '';'') sub ! Suc r =
          float_repr ft (xs ! r) @ '';'' @ float_repr ft (ys ! r) \<and>
        csv_lines ft (CHR '';'') df ! Suc r =
          csv_lines ft (CHR '';'') sub ! Suc r @ '';'' @ show_int (int (r div N_SAMPLES)))"
proof -
  obtain xs ys where len: "length xs = N_CLASSES * N_SAMPLES" "length ys = N_CLASSES * N_SAMPLES"
    and ds: "build_dataset rng st =
       Inr [(''feature_0'', map F64 xs), (''feature_1'', map F64 ys),
            (''cls'', concat (map (\<lambda>c. replicate N_SAMPLES (I64 (int c))) [0..<N_CLASSES]))]"
    by (rule build_dataset_frame)
  let ?labels = "concat (map (\<lambda>c. replicate N_SAMPLES (I64 (int c))) [0..<N_CLASSES]) :: 'a cell list"
  let ?df = "[(''feature_0'', map F64 xs), (''feature_1'', map F64 ys), (''cls'', ?labels)]"
  let ?sub = "[(''feature_0'', map F64 xs), (''feature_1'', map F64 ys)]"
  have sel: "select_columns ?df feature_names = Inr ?sub"
    by (simp add: feature_names_eq)
  have names: "map fst ?sub = [''feature_0'', ''feature_1'']"
    "map fst ?df = [''feature_0'', ''feature_1'', ''cls'']"
    by simp_all
  have wr: "written (fst (generator os rng ft file argv st)) =
       [(out_path os file @ ''/sample_data.csv'', unlines (csv_lines ft (CHR '';'') ?sub)),
        (out_path os file @ ''/ground_truth.csv'', unlines (csv_lines ft (CHR '';'') ?df))]"
    by (simp add: generator_trace [OF ds])
  have same: "length (csv_lines ft (CHR '';'') ?sub) = length (csv_lines ft (CHR '';'') ?df)"
    by (simp add: length_csv_lines nrows_def)
  have hdr: "csv_lines ft (CHR '';'') ?sub ! 0 = ''feature_0;feature_1''"
    "csv_lines ft (CHR '';'') ?df ! 0 = ''feature_0;feature_1;cls''"
    by (simp_all add: csv_lines_def)
  have rows: "csv_lines ft (CHR '';'') ?sub ! Suc r =
          float_repr ft (xs ! r) @ '';'' @ float_repr ft (ys ! r) \<and>
        csv_lines ft (CHR '';'') ?df ! Suc r =
          csv_lines ft (CHR '';'') ?sub ! Suc r @ '';'' @ show_int (int (r div N_SAMPLES))"
    if r: "r < N_CLASSES * N_SAMPLES" for r
  proof -
    have l: "?labels ! r = I64 (int (r div N_SAMPLES))"
      using r by (rule nth_concat_replicate)
    have "csv_lines ft (CHR '';'') ?df ! Suc r = csv_row ft (CHR '';'') ?df r"
      "csv_lines ft (CHR '';'') ?sub ! Suc r = csv_row ft (CHR '';'') ?sub r"
      using r len by (simp_all add: csv_lines_def nrows_def)
    with l r len show ?thesis
      by (simp add: csv_row_dataset csv_row_features fmt_cell_def)
  qed
  have every: "\<forall>r < N_CLASSES * N_SAMPLES.
        csv_lines ft (CHR '';'') ?sub ! Suc r =
          float_repr ft (xs ! r) @ '';'' @ float_repr ft (ys ! r) \<and>
        csv_lines ft (CHR '';'') ?df ! Suc r =
          csv_lines ft (CHR '';'') ?sub ! Suc r @ '';'' @ show_int (int (r div N_SAMPLES))"
    using rows by blast
  show ?thesis
    by (rule exI [of _ ?df], rule exI [of _ ?sub], rule exI [of _ xs], rule exI [of _ ys])
       (intro conjI ds sel names wr same hdr every)
qed

theorem C4_file_layout_witness:
  "(0::nat) < N_CLASSES * N_SAMPLES \<and>
   (\<exists>df sub xs ys.
     build_dataset counter_rng 0 = Inr df \<and>
     select_columns df feature_names = Inr sub \<and>
     csv_lines int_text (CHR '';'') sub ! 0 = ''feature_0;feature_1'' \<and>
     csv_lines int_text (CHR '';'') sub ! Suc 0 = show_int (xs ! 0) @ '';'' @ show_int (ys ! 0) \<and>
     csv_lines int_text (CHR '';'') df ! Suc 0 =
       csv_lines int_text (CHR '';'') sub ! Suc 0 @ '';'' @ ''0'')"
proof -
  have r: "(0::nat) < N_CLASSES * N_SAMPLES"
    by (simp add: N_CLASSES_def N_SAMPLES_def)
  have zero: "show_int 0 = ''0''"
    by (simp add: show_int_def show_nat_0)
  from C4_file_layout [of counter_rng 0 repo_os int_text "''/repo/scripts/gen_ex_data.py''"
      "[''gen_ex_data.py'']"]
  obtain df sub xs ys where
    "build_dataset counter_rng 0 = Inr df"
    "select_columns df feature_names = Inr sub"
    "csv_lines int_text (CHR '';'') sub ! 0 = ''feature_0;feature_1''"
    "\<forall>r < N_CLASSES * N_SAMPLES.
        csv_lines int_text (CHR '';'') sub ! Suc r =
          float_repr int_text (xs ! r) @ '';'' @ float_repr int_text (ys ! r) \<and>
        csv_lines int_text (CHR '';'') df ! Suc r =
          csv_lines int_text (CHR '';'') sub ! Suc r @ '';'' @ show_int (int (r div N_SAMPLES))"
    by blast
  note got = this
  from got(4) r have "csv_lines int_text (CHR '';'') sub ! Suc 0 =
          float_repr int_text (xs ! 0) @ '';'' @ float_repr int_text (ys ! 0)"
    and "csv_lines int_text (CHR '';'') df ! Suc 0 =
          csv_lines int_text (CHR '';'') sub ! Suc 0 @ '';'' @ show_int (int (0 div N_SAMPLES))"
    by blast+
  with zero have "csv_lines int_text (CHR '';'') sub ! Suc 0 = show_int (xs ! 0) @ '';'' @ show_int (ys ! 0)"
    and "csv_lines int_text (CHR '';'') df ! Suc 0 =
       csv_lines int_text (CHR '';'') sub ! Suc 0 @ '';'' @ ''0''"
    by (simp_all add: int_text_def)
  with got(1,2,3) r show ?thesis by blast
qed

lemma generator_trace_ex:
  "\<exists>df. build_dataset rng st = Inr df \<and>
    (\<forall>os ft file argv. generator os rng ft file argv st =
     ((if os_exists os (out_path os file) then [] else [Mkdir (out_path os file)]) @
      (if ''--plot'' \<in> set argv then [Pairplot df ''cls'', PltShow] else []) @
      [WriteFile (out_path os file @ ''/sample_data.csv'')
         (unlines (csv_lines ft (CHR '';'') (take 2 df))),
       WriteFile (out_path os file @ ''/ground_truth.csv'')
         (unlines (csv_lines ft (CHR '';'') df))],
      Inr ()))"
proof -
  obtain xs ys where ds: "build_dataset rng st =
       Inr [(''feature_0'', map F64 xs), (''feature_1'', map F64 ys),
            (''cls'', concat (map (\<lambda>c. replicate N_SAMPLES (I64 (int c))) [0..<N_CLASSES]))]"
    by (rule build_dataset_frame)
  show ?thesis
    by (rule exI, rule conjI, rule ds) (simp add: generator_trace [OF ds])
qed

text \<open>
  Claim C7.  The \<^verbatim>\<open>--plot\<close> argument does not touch the data: for the same state of
  the random generator, the files written and the outcome of the run are the same
  whatever the command line.  When the run plots, all plotting calls come before the
  first file is written.
\<close>

theorem C7_plot_leaves_data:
  "written (fst (generator os rng ft file argv st)) =
     written (fst (generator os rng ft file argv' st)) \<and>
   snd (generator os rng ft file argv st) = snd (generator os rng ft file argv' st) \<and>
   (\<exists>before after.
      fst (generator os rng ft file argv st) = before @ after \<and>
      written before = [] \<and>
      filter is_plot after = [] \<and>
      written after = written (fst (generator os rng ft file argv st)) \<and>
      filter is_plot before = filter is_plot (fst (generator os rng ft file argv st)))"
proof -
  obtain df where tr: "\<And>os ft file argv. generator os rng ft file argv st =
     ((if os_exists os (out_path os file) then [] else [Mkdir (out_path os file)]) @
      (if ''--plot'' \<in> set argv then [Pairplot df ''cls'', PltShow] else []) @
      [WriteFile (out_path os file @ ''/sample_data.csv'')
         (unlines (csv_lines ft (CHR '';'') (take 2 df))),
       WriteFile (out_path os file @ ''/ground_truth.csv'')
         (unlines (csv_lines ft (CHR '';'') df))],
      Inr ())"
    using generator_trace_ex [of rng st] by blast
  let ?before = "(if os_exists os (out_path os file) then [] else [Mkdir (out_path os file)]) @
      (if ''--plot'' \<in> set argv then [Pairplot df ''cls'', PltShow] else [])"
  let ?after = "[WriteFile (out_path os file @ ''/sample_data.csv'')
         (unlines (csv_lines ft (CHR '';'') (take 2 df))),
       WriteFile (out_path os file @ ''/ground_truth.csv'')
         (unlines (csv_lines ft (CHR '';'') df))]"
  have same: "written (fst (generator os rng ft file argv st)) =
     written (fst (generator os rng ft file argv' st))"
    "snd (generator os rng ft file argv st) = snd (generator os rng ft file argv' st)"
    by (simp_all add: tr)
  have split: "fst (generator os rng ft file argv st) = ?before @ ?after"
    "written ?before = []" "filter is_plot ?after = []"
    "written ?after = written (fst (generator os rng ft file argv st))"
    "filter is_plot ?before = filter is_plot (fst (generator os rng ft file argv st))"
    by (simp_all add: tr)
  from same split show ?thesis by blast
qed

theorem C7_plot_leaves_data_witness:
  "written (fst (generator repo_os counter_rng int_text ''/repo/scripts/gen_ex_data.py''
       [''gen_ex_data.py'', ''--plot''] 0)) =
   written (fst (generator repo_os counter_rng int_text ''/repo/scripts/gen_ex_data.py''
       [''gen_ex_data.py''] 0))"
  using C7_plot_leaves_data [of repo_os counter_rng int_text "''/repo/scripts/gen_ex_data.py''"
      "[''gen_ex_data.py'', ''--plot'']" 0 "[''gen_ex_data.py'']"]
  by blast

text \<open>
  Claim C8.  The command line matters through one question only, whether the string
  \<^verbatim>\<open>--plot\<close> is among the arguments: the run plots exactly then, and two command lines
  that agree on it give the same run, whatever else they hold (so the flag takes
  no value).  The model has no other input from the caller: no environment variable
  is read.
\<close>

theorem C8_only_flag:
  "((\<exists>e \<in> set (fst (generator os rng ft file argv st)). is_plot e) = (''--plot'' \<in> set argv)) \<and>
   ((''--plot'' \<in> set argv) = (''--plot'' \<in> set argv') \<longrightarrow>
      generator os rng ft file argv st = generator os rng ft file argv' st)"
proof -
  obtain df where tr: "\<And>os ft file argv. generator os rng ft file argv st =
     ((if os_exists os (out_path os file) then [] else [Mkdir (out_path os file)]) @
      (if ''--plot'' \<in> set argv then [Pairplot df ''cls'', PltShow] else []) @
      [WriteFile (out_path os file @ ''/sample_data.csv'')
         (unlines (csv_lines ft (CHR '';'') (take 2 df))),
       WriteFile (out_path os file @ ''/ground_truth.csv'')
         (unlines (csv_lines ft (CHR '';'') df))],
      Inr ())"
    using generator_trace_ex [of rng st] by blast
  have "is_plot (PltShow :: 'a effect)" by simp
  then show ?thesis by (auto simp: tr)
qed

theorem C8_only_flag_witness:
  "(''--plot'' \<in> set [''gen_ex_data.py'', ''--plot'', ''5'']) = (''--plot'' \<in> set [''--plot'']) \<and>
   generator repo_os counter_rng int_text ''/repo/scripts/gen_ex_data.py''
     [''gen_ex_data.py'', ''--plot'', ''5''] 0 =
   generator repo_os counter_rng int_text ''/repo/scripts/gen_ex_data.py'' [''--plot''] 0"
  using C8_only_flag [of repo_os counter_rng int_text "''/repo/scripts/gen_ex_data.py''"
      "[''gen_ex_data.py'', ''--plot'', ''5'']" 0 "[''--plot'']"]
  by simp

section \<open>Lemmas: reading and plotting\<close>

lemma convert_all_length: "convert_all f xs = Inr ys \<Longrightarrow> length ys = length xs"
  by (induction xs arbitrary: ys) (auto split: sum.splits)

lemma convert_all_nth:
  "convert_all f xs = Inr ys \<Longrightarrow> i < length xs \<Longrightarrow> f (xs ! i) = Inr (ys ! i)"
proof (induction xs arbitrary: ys i)
  case Nil
  then show ?case by simp
next
  case (Cons x xs)
  then show ?case by (cases i) (auto split: sum.splits)
qed


lemma convert_all_fails:
  "x \<in> set xs \<Longrightarrow> f x = Inl e \<Longrightarrow> \<exists>e'. convert_all f xs = Inl e'"
  by (induction xs) (auto split: sum.splits)

lemma unique_from_set: "set (unique_from seen xs) = set xs - set seen"
  by (induction xs arbitrary: seen) auto

lemma unique_from_distinct: "distinct (unique_from seen xs)"
  by (induction xs arbitrary: seen) (auto simp: unique_from_set)

lemma set_unique: "set (unique xs) = set xs"
  by (simp add: unique_def unique_from_set)

lemma distinct_unique: "distinct (unique xs)"
  by (simp add: unique_def unique_from_distinct)

lemma length_unique: "length (unique xs) = card (set xs)"
  using distinct_card [OF distinct_unique, of xs] by (simp add: set_unique)

lemma for_each_singletons:
  "\<forall>x \<in> set xs. body x = ([ev x], Inr ()) \<Longrightarrow> for_each xs body = (map ev xs, Inr ())"
  by (induction xs) (simp_all add: lift_def and_then_def)

lemma getitem_present: "name \<in> fst ` set df \<Longrightarrow> \<exists>vs. getitem df name = Inr vs"
  by (cases "map_of df name") (auto simp: getitem_def map_of_eq_None_iff)

lemma names_filter_rows: "fst ` set (filter_rows df keep) = fst ` set df"
  by (force simp: filter_rows_def)

lemma to_float_cell: "to_float ft s = Inr c \<Longrightarrow> c = NaN \<or> (\<exists>v. c = F64 v)"
  by (auto simp: to_float_def split: if_splits option.splits)

lemma convert_column:
  assumes "convert_all (\<lambda>r. to_float ft (field r j)) rows = Inr col"
  shows "length col = length rows" and "\<forall>c \<in> set col. c = NaN \<or> (\<exists>v. c = F64 v)"
proof -
  show len: "length col = length rows"
    using assms by (rule convert_all_length)
  show "\<forall>c \<in> set col. c = NaN \<or> (\<exists>v. c = F64 v)"
  proof
    fix c assume "c \<in> set col"
    then obtain i where i: "i < length col" "col ! i = c"
      by (auto simp: in_set_conv_nth)
    with len convert_all_nth [OF assms, of i]
    have "to_float ft (field (rows ! i) j) = Inr c" by simp
    then show "c = NaN \<or> (\<exists>v. c = F64 v)" by (rule to_float_cell)
  qed
qed

lemma read_csv_success:
  assumes "read_csv ft sep names k text = Inr df"
  obtains cols where "df = zip names cols" and "length cols = length names"
    and "\<forall>col \<in> set cols. length col = length (records k text) \<and>
           (\<forall>c \<in> set col. c = NaN \<or> (\<exists>v. c = F64 v))"
proof -
  define rows where "rows = map (split_on sep) (records k text)"
  define width where
    "width = (case rows of [] \<Rightarrow> length names | r # _ \<Rightarrow> max (length r) (length names))"
  have wide: "length names \<le> width"
    by (simp add: width_def split: list.splits)
  from assms obtain all_cols where
    conv: "convert_all (\<lambda>j. convert_all (\<lambda>r. to_float ft (field r j)) rows) [0..<width] = Inr all_cols"
    and df: "df = zip names (drop (width - length names) all_cols)"
    by (auto simp: read_csv_def Let_def rows_def width_def split: if_splits sum.splits)
  have len: "length all_cols = width"
    using convert_all_length [OF conv] by simp
  have each: "length col = length (records k text) \<and> (\<forall>c \<in> set col. c = NaN \<or> (\<exists>v. c = F64 v))"
    if "col \<in> set all_cols" for col
  proof -
    from that obtain j where j: "j < width" "all_cols ! j = col"
      using len by (auto simp: in_set_conv_nth)
    with convert_all_nth [OF conv, of j]
    have "convert_all (\<lambda>r. to_float ft (field r j)) rows = Inr col" by simp
    from convert_column [OF this] show ?thesis by (simp add: rows_def)
  qed
  show thesis
  proof (rule that [of "drop (width - length names) all_cols"])
    show "df = zip names (drop (width - length names) all_cols)" by (rule df)
    show "length (drop (width - length names) all_cols) = length names"
      using len wide by simp
    show "\<forall>col \<in> set (drop (width - length names) all_cols).
        length col = length (records k text) \<and> (\<forall>c \<in> set col. c = NaN \<or> (\<exists>v. c = F64 v))"
      using each by (meson in_set_dropD)
  qed
qed

lemma read_csv_names: "read_csv ft sep names k text = Inr df \<Longrightarrow> map fst df = names"
  by (erule read_csv_success) simp

lemma read_csv_nrows:
  assumes "read_csv ft sep names k text = Inr df" and "names \<noteq> []"
  shows "nrows df = length (records k text)"
proof -
  from assms(1) obtain cols where c: "df = zip names cols" "length cols = length names"
    "\<forall>col \<in> set cols. length col = length (records k text) \<and>
           (\<forall>c \<in> set col. c = NaN \<or> (\<exists>v. c = F64 v))"
    by (rule read_csv_success)
  with assms(2) obtain n ns col rest where "names = n # ns" "cols = col # rest"
    by (cases names; cases cols) auto
  with c show ?thesis by (simp add: nrows_def)
qed


lemma scatter_classes_trace:
  assumes names: "''cls'' \<in> fst ` set df" "''feature_1'' \<in> fst ` set df" "''feature_2'' \<in> fst ` set df"
    and col: "getitem df ''cls'' = Inr col"
  shows "\<exists>X Y. scatter_classes ax df =
           (map (\<lambda>c. Scatter ax (X c) (Y c) None None None) (unique col), Inr ())"
proof -
  define part where "part c = filter_rows df (map (\<lambda>v. py_eq v c) col)" for c
  define X where "X c = (case getitem (part c) ''feature_1'' of Inr xs \<Rightarrow> xs | Inl e \<Rightarrow> [])" for c
  define Y where "Y c = (case getitem (part c) ''feature_2'' of Inr ys \<Rightarrow> ys | Inl e \<Rightarrow> [])" for c
  have gx: "getitem (part c) ''feature_1'' = Inr (X c)" for c
    using getitem_present [of "''feature_1''" "part c"] names(2)
    by (auto simp: X_def part_def names_filter_rows)
  have gy: "getitem (part c) ''feature_2'' = Inr (Y c)" for c
    using getitem_present [of "''feature_2''" "part c"] names(3)
    by (auto simp: Y_def part_def names_filter_rows)
  have one: "scatter_class ax df c = ([Scatter ax (X c) (Y c) None None None], Inr ())" for c
    using col gx [of c] gy [of c]
    by (simp add: scatter_class_def part_def and_then_def lift_def emit_def)
  have "scatter_classes ax df =
           (map (\<lambda>c. Scatter ax (X c) (Y c) None None None) (unique col), Inr ())"
    using col for_each_singletons [of "unique col" "scatter_class ax df"
        "\<lambda>c. Scatter ax (X c) (Y c) None None None"] one
    by (simp add: scatter_classes_def and_then_def lift_def)
  then show ?thesis by blast
qed

lemma load_inputs_success:
  assumes "load_inputs os ft file fs = Inr (prediction, ground_truth, cluster_centers)"
  obtains t1 t2 t3 where
    "fs (out_path os file @ ''/predicted_classes.csv'') = Some t1"
    "read_csv ft (CHR '';'') [''feature_1'', ''feature_2'', ''cls''] 0 t1 = Inr prediction"
    "fs (out_path os file @ ''/ground_truth.csv'') = Some t2"
    "read_csv ft (CHR '';'') [''feature_1'', ''feature_2'', ''cls''] 1 t2 = Inr ground_truth"
    "fs (out_path os file @ ''/clusters.csv'') = Some t3"
    "read_csv ft (CHR '';'') [''feature_1'', ''feature_2''] 0 t3 = Inr cluster_centers"
  using assms
  by (auto simp: load_inputs_def read_csv_file_def split: sum.splits option.splits)

lemma comparator_trace:
  assumes "load_inputs os ft file fs = Inr (prediction, ground_truth, cluster_centers)"
  shows "\<exists>pcls gcls cx cy X Y X' Y'.
     getitem prediction ''cls'' = Inr pcls \<and>
     getitem ground_truth ''cls'' = Inr gcls \<and>
     getitem cluster_centers ''feature_1'' = Inr cx \<and>
     getitem cluster_centers ''feature_2'' = Inr cy \<and>
     comparator os ft file fs =
       ([Subplots 2 1] @
        map (\<lambda>c. Scatter 0 (X c) (Y c) None None None) (unique pcls) @
        map (\<lambda>c. Scatter 1 (X' c) (Y' c) None None None) (unique gcls) @
        [Scatter 0 cx cy (Some ''red'') (Some 50) (Some ''x''),
         SetTitle 0 ''Prediction'', SetTitle 1 ''Ground Truth'', PltShow],
        Inr ())"
proof -
  from assms obtain t1 t2 t3 where
    r1: "read_csv ft (CHR '';'') [''feature_1'', ''feature_2'', ''cls''] 0 t1 = Inr prediction" and
    r2: "read_csv ft (CHR '';'') [''feature_1'', ''feature_2'', ''cls''] 1 t2 = Inr ground_truth" and
    r3: "read_csv ft (CHR '';'') [''feature_1'', ''feature_2''] 0 t3 = Inr cluster_centers"
    by (rule load_inputs_success)
  have n1: "fst ` set prediction = {''feature_1'', ''feature_2'', ''cls''}"
    using read_csv_names [OF r1] by (metis list.set_map list.simps(15) empty_set)
  have n2: "fst ` set ground_truth = {''feature_1'', ''feature_2'', ''cls''}"
    using read_csv_names [OF r2] by (metis list.set_map list.simps(15) empty_set)
  have n3: "fst ` set cluster_centers = {''feature_1'', ''feature_2''}"
    using read_csv_names [OF r3] by (metis list.set_map list.simps(15) empty_set)
  obtain pcls where p: "getitem prediction ''cls'' = Inr pcls"
    using getitem_present [of "''cls''" prediction] n1 by auto
  obtain gcls where g: "getitem ground_truth ''cls'' = Inr gcls"
    using getitem_present [of "''cls''" ground_truth] n2 by auto
  obtain cx where cx: "getitem cluster_centers ''feature_1'' = Inr cx"
    using getitem_present [of "''feature_1''" cluster_centers] n3 by auto
  obtain cy where cy: "getitem cluster_centers ''feature_2'' = Inr cy"
    using getitem_present [of "''feature_2''" cluster_centers] n3 by auto
  obtain X Y where s0: "scatter_classes 0 prediction =
           (map (\<lambda>c. Scatter 0 (X c) (Y c) None None None) (unique pcls), Inr ())"
    using scatter_classes_trace [OF _ _ _ p, of 0] n1 by auto
  obtain X' Y' where s1: "scatter_classes 1 ground_truth =
           (map (\<lambda>c. Scatter 1 (X' c) (Y' c) None None None) (unique gcls), Inr ())"
    using scatter_classes_trace [OF _ _ _ g, of 1] n2 by auto
  have "comparator os ft file fs =
       ([Subplots 2 1] @
        map (\<lambda>c. Scatter 0 (X c) (Y c) None None None) (unique pcls) @
        map (\<lambda>c. Scatter 1 (X' c) (Y' c) None None None) (unique gcls) @
        [Scatter 0 cx cy (Some ''red'') (Some 50) (Some ''x''),
         SetTitle 0 ''Prediction'', SetTitle 1 ''Ground Truth'', PltShow],
        Inr ())"
    using assms s0 s1 cx cy
    by (simp add: comparator_def draw_figure_def and_then_def lift_def emit_def)
  with p g cx cy show ?thesis by blast
qed

section \<open>The example files\<close>

lemma parse_int_digits:
  "parse_int ''0'' = Some 0" "parse_int ''1'' = Some 1" "parse_int ''2'' = Some 2"
  "parse_int ''3'' = Some 3" "parse_int ''4'' = Some 4" "parse_int ''5'' = Some 5"
  "parse_int ''6'' = Some 6" "parse_int ''7'' = Some 7" "parse_int ''8'' = Some 8"
  by (simp_all add: parse_int_def parse_nat_def digit_value_def)

lemma to_float_digits:
  "to_float int_text ''0'' = Inr (F64 0)" "to_float int_text ''1'' = Inr (F64 1)"
  "to_float int_text ''2'' = Inr (F64 2)" "to_float int_text ''3'' = Inr (F64 3)"
  "to_float int_text ''4'' = Inr (F64 4)" "to_float int_text ''5'' = Inr (F64 5)"
  "to_float int_text ''6'' = Inr (F64 6)" "to_float int_text ''7'' = Inr (F64 7)"
  "to_float int_text ''8'' = Inr (F64 8)"
  by (simp_all add: to_float_def int_text_def parse_int_digits na_values_def)

lemma example_prediction:
  "read_csv int_text (CHR '';'') [''feature_1'', ''feature_2'', ''cls''] 0
     (unlines [''1;2;0'', ''3;4;1'', ''5;6;2'', ''7;8;0'']) =
   Inr [(''feature_1'', [F64 1, F64 3, F64 5, F64 7]),
        (''feature_2'', [F64 2, F64 4, F64 6, F64 8]),
        (''cls'', [F64 0, F64 1, F64 2, F64 0])]"
proof -
  have l: "lines_of (unlines [''1;2;0'', ''3;4;1'', ''5;6;2'', ''7;8;0'']) =
      [''1;2;0'', ''3;4;1'', ''5;6;2'', ''7;8;0'']"
    by (rule lines_of_unlines) (simp add: LF_def)
  have u: "[0..<3] = [0, 1, 2]" by (simp add: upt_rec)
  show ?thesis
    by (simp add: read_csv_def records_def l blank_line_def u field_def to_float_digits)
qed

lemma example_ground_truth:
  "read_csv int_text (CHR '';'') [''feature_1'', ''feature_2'', ''cls''] 1
     (unlines [''feature_0;feature_1;cls'', ''1;2;0'', ''3;4;1'', ''5;6;2'', ''7;8;0'']) =
   Inr [(''feature_1'', [F64 1, F64 3, F64 5, F64 7]),
        (''feature_2'', [F64 2, F64 4, F64 6, F64 8]),
        (''cls'', [F64 0, F64 1, F64 2, F64 0])]"
proof -
  have l: "lines_of (unlines [''feature_0;feature_1;cls'', ''1;2;0'', ''3;4;1'', ''5;6;2'', ''7;8;0'']) =
      [''feature_0;feature_1;cls'', ''1;2;0'', ''3;4;1'', ''5;6;2'', ''7;8;0'']"
    by (rule lines_of_unlines) (simp add: LF_def)
  have u: "[0..<3] = [0, 1, 2]" by (simp add: upt_rec)
  show ?thesis
    by (simp add: read_csv_def records_def l blank_line_def u field_def to_float_digits)
qed

lemma example_clusters:
  "read_csv int_text (CHR '';'') [''feature_1'', ''feature_2''] 0
     (unlines [''4;5'', ''3;4'', ''5;6'']) =
   Inr [(''feature_1'', [F64 4, F64 3, F64 5]), (''feature_2'', [F64 5, F64 4, F64 6])]"
proof -
  have l: "lines_of (unlines [''4;5'', ''3;4'', ''5;6'']) = [''4;5'', ''3;4'', ''5;6'']"
    by (rule lines_of_unlines) (simp add: LF_def)
  have u: "[0..<2] = [0, 1]" by (simp add: upt_rec)
  show ?thesis
    by (simp add: read_csv_def records_def l blank_line_def u field_def to_float_digits)
qed

lemma example_out_path: "out_path repo_os file = ''/repo/files''"
  by (simp add: out_path_def repo_os_def)

lemma example_load:
  "load_inputs repo_os int_text ''/repo/scripts/plot_comparison.py'' example_files =
     Inr ([(''feature_1'', [F64 1, F64 3, F64 5, F64 7]),
           (''feature_2'', [F64 2, F64 4, F64 6, F64 8]),
           (''cls'', [F64 0, F64 1, F64 2, F64 0])],
          [(''feature_1'', [F64 1, F64 3, F64 5, F64 7]),
           (''feature_2'', [F64 2, F64 4, F64 6, F64 8]),
           (''cls'', [F64 0, F64 1, F64 2, F64 0])],
          [(''feature_1'', [F64 4, F64 3, F64 5]), (''feature_2'', [F64 5, F64 4, F64 6])])"
  by (simp add: load_inputs_def read_csv_file_def example_out_path example_files_def
      example_prediction example_ground_truth [unfolded One_nat_def] example_clusters)

section \<open>The comparator: what it draws\<close>

lemma map_of_filter_rows:
  "map_of (filter_rows df keep) name =
     map_option (\<lambda>vs. map fst (filter snd (zip vs keep))) (map_of df name)"
  by (induction df) (auto simp: filter_rows_def)

lemma getitem_filter_rows:
  "getitem df name = Inr vs \<Longrightarrow>
   getitem (filter_rows df keep) name = Inr (map fst (filter snd (zip vs keep)))"
  by (auto simp: getitem_def map_of_filter_rows split: option.splits)

lemma select_by_class:
  "map fst (filter snd (zip xs (map f ys))) = map fst (filter (\<lambda>(x, y). f y) (zip xs ys))"
proof (induction xs arbitrary: ys)
  case Nil
  show ?case by simp
next
  case (Cons x xs)
  show ?case by (cases ys) (simp_all add: Cons.IH)
qed

lemma scatter_class_series:
  assumes "getitem df ''cls'' = Inr col" and "getitem df ''feature_1'' = Inr xs"
    and "getitem df ''feature_2'' = Inr ys"
  shows "scatter_class ax df c =
     ([Scatter ax (map fst (filter (\<lambda>(x, v). py_eq v c) (zip xs col)))
                  (map fst (filter (\<lambda>(y, v). py_eq v c) (zip ys col))) None None None], Inr ())"
  using assms(1) getitem_filter_rows [OF assms(2), of "map (\<lambda>v. py_eq v c) col"]
    getitem_filter_rows [OF assms(3), of "map (\<lambda>v. py_eq v c) col"]
  by (simp add: scatter_class_def and_then_def lift_def emit_def select_by_class)

lemma scatter_classes_series:
  assumes "getitem df ''cls'' = Inr col" and "getitem df ''feature_1'' = Inr xs"
    and "getitem df ''feature_2'' = Inr ys"
  shows "scatter_classes ax df =
     (map (\<lambda>c. Scatter ax (map fst (filter (\<lambda>(x, v). py_eq v c) (zip xs col)))
                  (map fst (filter (\<lambda>(y, v). py_eq v c) (zip ys col))) None None None)
        (unique col), Inr ())"
  using assms(1)
    for_each_singletons [of "unique col" "scatter_class ax df"
      "\<lambda>c. Scatter ax (map fst (filter (\<lambda>(x, v). py_eq v c) (zip xs col)))
                  (map fst (filter (\<lambda>(y, v). py_eq v c) (zip ys col))) None None None"]
    scatter_class_series [OF assms]
  by (simp add: scatter_classes_def and_then_def lift_def)

lemma draw_figure_trace:
  assumes "getitem prediction ''cls'' = Inr pcls"
    and "getitem prediction ''feature_1'' = Inr px" and "getitem prediction ''feature_2'' = Inr py"
    and "getitem ground_truth ''cls'' = Inr gcls"
    and "getitem ground_truth ''feature_1'' = Inr gx" and "getitem ground_truth ''feature_2'' = Inr gy"
    and "getitem cluster_centers ''feature_1'' = Inr cx"
    and "getitem cluster_centers ''feature_2'' = Inr cy"
  shows "draw_figure prediction ground_truth cluster_centers =
     ([Subplots 2 1] @
      map (\<lambda>c. Scatter 0 (map fst (filter (\<lambda>(x, v). py_eq v c) (zip px pcls)))
                  (map fst (filter (\<lambda>(y, v). py_eq v c) (zip py pcls))) None None None)
        (unique pcls) @
      map (\<lambda>c. Scatter 1 (map fst (filter (\<lambda>(x, v). py_eq v c) (zip gx gcls)))
                  (map fst (filter (\<lambda>(y, v). py_eq v c) (zip gy gcls))) None None None)
        (unique gcls) @
      [Scatter 0 cx cy (Some ''red'') (Some 50) (Some ''x''),
       SetTitle 0 ''Prediction'', SetTitle 1 ''Ground Truth'', PltShow],
      Inr ())"
  using scatter_classes_series [OF assms(1,2,3), of 0]
    scatter_classes_series [OF assms(4,5,6), of 1] assms(7,8)
  by (simp add: draw_figure_def and_then_def lift_def emit_def)

lemma no_row_equals_NaN: "filter (\<lambda>(x, v). py_eq v NaN) rows = []"
  by (induction rows) (auto simp: py_eq_def)

lemma loaded_columns:
  assumes "read_csv ft sep names k content = Inr df" and "name \<in> set names"
  shows "\<exists>vs. getitem df name = Inr vs"
proof -
  from read_csv_names [OF assms(1)] assms(2) have "name \<in> fst ` set df"
    by (metis list.set_map)
  then show ?thesis by (rule getitem_present)
qed

text \<open>
  Claim C6.  The figure is drawn from the three frames the reads return.  Whatever
  frames these are, as long as they carry the column names the script assigns: the top
  subplot (axis 0) gets one scatter series per distinct value of the predicted \<open>cls\<close>
  column, in order of first appearance, holding exactly the \<open>feature_1\<close> and \<open>feature_2\<close>
  values of the rows whose \<open>cls\<close> equals that value, drawn without a marker or a colour
  of its own (so the colour cycle picks one); then the bottom subplot (axis 1) gets the
  same for the ground truth; then axis 0 gets one more series, all cluster centres,
  in red with marker \<^verbatim>\<open>x\<close>.  So \<open>k\<close> distinct predicted values give \<open>k\<close> series plus the
  centres.  A missing value counts as one value, as \<^verbatim>\<open>unique()\<close> has it, and its series
  is empty, since NaN equals nothing.  The run of the whole script is this drawing
  whenever the three files load, and the loaded frames do carry those names.
\<close>

theorem C6_scatter_series:
  "(getitem prediction ''cls'' = Inr pcls \<and>
    getitem prediction ''feature_1'' = Inr px \<and> getitem prediction ''feature_2'' = Inr py \<and>
    getitem ground_truth ''cls'' = Inr gcls \<and>
    getitem ground_truth ''feature_1'' = Inr gx \<and> getitem ground_truth ''feature_2'' = Inr gy \<and>
    getitem cluster_centers ''feature_1'' = Inr cx \<and>
    getitem cluster_centers ''feature_2'' = Inr cy \<longrightarrow>
      (\<exists>top bottom trace.
         top = map (\<lambda>c. Scatter 0 (map fst (filter (\<lambda>(x, v). py_eq v c) (zip px pcls)))
                      (map fst (filter (\<lambda>(y, v). py_eq v c) (zip py pcls))) None None None)
                 (unique pcls) \<and>
         bottom = map (\<lambda>c. Scatter 1 (map fst (filter (\<lambda>(x, v). py_eq v c) (zip gx gcls)))
                      (map fst (filter (\<lambda>(y, v). py_eq v c) (zip gy gcls))) None None None)
                    (unique gcls) \<and>
         trace = [Subplots 2 1] @ top @ bottom @
                 [Scatter 0 cx cy (Some ''red'') (Some 50) (Some ''x''),
                  SetTitle 0 ''Prediction'', SetTitle 1 ''Ground Truth'', PltShow] \<and>
         draw_figure prediction ground_truth cluster_centers = (trace, Inr ()) \<and>
         distinct (unique pcls) \<and> set (unique pcls) = set pcls \<and>
         distinct (unique gcls) \<and> set (unique gcls) = set gcls \<and>
         length top = card (set pcls) \<and> length bottom = card (set gcls) \<and>
         filter (\<lambda>(x, v). py_eq v NaN) (zip px pcls) = [] \<and>
         filter (\<lambda>(y, v). py_eq v NaN) (zip py pcls) = [] \<and>
         filter (\<lambda>e. is_scatter_on 0 e \<and> marker_of e = None \<and> color_of e = None) trace = top \<and>
         filter (\<lambda>e. is_scatter_on 0 e \<and> (marker_of e \<noteq> None \<or> color_of e \<noteq> None)) trace =
           [Scatter 0 cx cy (Some ''red'') (Some 50) (Some ''x'')] \<and>
         length (filter (is_scatter_on 0) trace) = card (set pcls) + 1 \<and>
         filter (is_scatter_on 1) trace = bottom)) \<and>
   (load_inputs os ft file fs = Inr (prediction, ground_truth, cluster_centers) \<longrightarrow>
      comparator os ft file fs = draw_figure prediction ground_truth cluster_centers \<and>
      (\<exists>pcls px py gcls gx gy cx cy.
         getitem prediction ''cls'' = Inr pcls \<and>
         getitem prediction ''feature_1'' = Inr px \<and> getitem prediction ''feature_2'' = Inr py \<and>
         getitem ground_truth ''cls'' = Inr gcls \<and>
         getitem ground_truth ''feature_1'' = Inr gx \<and> getitem ground_truth ''feature_2'' = Inr gy \<and>
         getitem cluster_centers ''feature_1'' = Inr cx \<and>
         getitem cluster_centers ''feature_2'' = Inr cy))"
proof (intro conjI impI)
  assume cols: "getitem prediction ''cls'' = Inr pcls \<and>
    getitem prediction ''feature_1'' = Inr px \<and> getitem prediction ''feature_2'' = Inr py \<and>
    getitem ground_truth ''cls'' = Inr gcls \<and>
    getitem ground_truth ''feature_1'' = Inr gx \<and> getitem ground_truth ''feature_2'' = Inr gy \<and>
    getitem cluster_centers ''feature_1'' = Inr cx \<and>
    getitem cluster_centers ''feature_2'' = Inr cy"
  let ?top = "map (\<lambda>c. Scatter 0 (map fst (filter (\<lambda>(x, v). py_eq v c) (zip px pcls)))
                      (map fst (filter (\<lambda>(y, v). py_eq v c) (zip py pcls))) None None None)
                 (unique pcls)"
  let ?bottom = "map (\<lambda>c. Scatter 1 (map fst (filter (\<lambda>(x, v). py_eq v c) (zip gx gcls)))
                      (map fst (filter (\<lambda>(y, v). py_eq v c) (zip gy gcls))) None None None)
                    (unique gcls)"
  let ?trace = "[Subplots 2 1] @ ?top @ ?bottom @
                 [Scatter 0 cx cy (Some ''red'') (Some 50) (Some ''x''),
                  SetTitle 0 ''Prediction'', SetTitle 1 ''Ground Truth'', PltShow]"
  have d: "draw_figure prediction ground_truth cluster_centers = (?trace, Inr ())"
    using cols by (intro draw_figure_trace) simp_all
  have u: "distinct (unique pcls)" "set (unique pcls) = set pcls"
    "distinct (unique gcls)" "set (unique gcls) = set gcls"
    by (simp_all add: distinct_unique set_unique)
  have l: "length ?top = card (set pcls)" "length ?bottom = card (set gcls)"
    by (simp_all add: length_unique)
  have n: "filter (\<lambda>(x, v). py_eq v NaN) (zip px pcls) = []"
    "filter (\<lambda>(y, v). py_eq v NaN) (zip py pcls) = []"
    by (rule no_row_equals_NaN)+
  have f1: "filter (\<lambda>e. is_scatter_on 0 e \<and> marker_of e = None \<and> color_of e = None) ?trace = ?top"
    by (simp add: filter_map comp_def)
  have f2: "filter (\<lambda>e. is_scatter_on 0 e \<and> (marker_of e \<noteq> None \<or> color_of e \<noteq> None)) ?trace =
           [Scatter 0 cx cy (Some ''red'') (Some 50) (Some ''x'')]"
    by (simp add: filter_map comp_def)
  have f3: "length (filter (is_scatter_on 0) ?trace) = card (set pcls) + 1"
    by (simp add: filter_map comp_def length_unique)
  have f4: "filter (is_scatter_on 1) ?trace = ?bottom"
    by (simp add: filter_map comp_def)
  show "\<exists>top bottom trace.
         top = ?top \<and> bottom = ?bottom \<and>
         trace = [Subplots 2 1] @ top @ bottom @
                 [Scatter 0 cx cy (Some ''red'') (Some 50) (Some ''x''),
                  SetTitle 0 ''Prediction'', SetTitle 1 ''Ground Truth'', PltShow] \<and>
         draw_figure prediction ground_truth cluster_centers = (trace, Inr ()) \<and>
         distinct (unique pcls) \<and> set (unique pcls) = set pcls \<and>
         distinct (unique gcls) \<and> set (unique gcls) = set gcls \<and>
         length top = card (set pcls) \<and> length bottom = card (set gcls) \<and>
         filter (\<lambda>(x, v). py_eq v NaN) (zip px pcls) = [] \<and>
         filter (\<lambda>(y, v). py_eq v NaN) (zip py pcls) = [] \<and>
         filter (\<lambda>e. is_scatter_on 0 e \<and> marker_of e = None \<and> color_of e = None) trace = top \<and>
         filter (\<lambda>e. is_scatter_on 0 e \<and> (marker_of e \<noteq> None \<or> color_of e \<noteq> None)) trace =
           [Scatter 0 cx cy (Some ''red'') (Some 50) (Some ''x'')] \<and>
         length (filter (is_scatter_on 0) trace) = card (set pcls) + 1 \<and>
         filter (is_scatter_on 1) trace = bottom"
    by (rule exI [of _ ?top], rule exI [of _ ?bottom], rule exI [of _ ?trace])
       (intro conjI refl d u l n f1 f2 f3 f4)
next
  assume ld: "load_inputs os ft file fs = Inr (prediction, ground_truth, cluster_centers)"
  then show "comparator os ft file fs = draw_figure prediction ground_truth cluster_centers"
    by (simp add: comparator_def and_then_def lift_def split: prod.splits)
next
  assume ld: "load_inputs os ft file fs = Inr (prediction, ground_truth, cluster_centers)"
  then obtain t1 t2 t3 where
    r1: "read_csv ft (CHR '';'') [''feature_1'', ''feature_2'', ''cls''] 0 t1 = Inr prediction" and
    r2: "read_csv ft (CHR '';'') [''feature_1'', ''feature_2'', ''cls''] 1 t2 = Inr ground_truth" and
    r3: "read_csv ft (CHR '';'') [''feature_1'', ''feature_2''] 0 t3 = Inr cluster_centers"
    by (rule load_inputs_success)
  obtain pcls where a1: "getitem prediction ''cls'' = Inr pcls"
    using loaded_columns [OF r1, of "''cls''"] by auto
  obtain px where a2: "getitem prediction ''feature_1'' = Inr px"
    using loaded_columns [OF r1, of "''feature_1''"] by auto
  obtain py where a3: "getitem prediction ''feature_2'' = Inr py"
    using loaded_columns [OF r1, of "''feature_2''"] by auto
  obtain gcls where a4: "getitem ground_truth ''cls'' = Inr gcls"
    using loaded_columns [OF r2, of "''cls''"] by auto
  obtain gx where a5: "getitem ground_truth ''feature_1'' = Inr gx"
    using loaded_columns [OF r2, of "''feature_1''"] by auto
  obtain gy where a6: "getitem ground_truth ''feature_2'' = Inr gy"
    using loaded_columns [OF r2, of "''feature_2''"] by auto
  obtain cx where a7: "getitem cluster_centers ''feature_1'' = Inr cx"
    using loaded_columns [OF r3, of "''feature_1''"] by auto
  obtain cy where a8: "getitem cluster_centers ''feature_2'' = Inr cy"
    using loaded_columns [OF r3, of "''feature_2''"] by auto
  show "\<exists>pcls px py gcls gx gy cx cy.
         getitem prediction ''cls'' = Inr pcls \<and>
         getitem prediction ''feature_1'' = Inr px \<and> getitem prediction ''feature_2'' = Inr py \<and>
         getitem ground_truth ''cls'' = Inr gcls \<and>
         getitem ground_truth ''feature_1'' = Inr gx \<and> getitem ground_truth ''feature_2'' = Inr gy \<and>
         getitem cluster_centers ''feature_1'' = Inr cx \<and>
         getitem cluster_centers ''feature_2'' = Inr cy"
    using a1 a2 a3 a4 a5 a6 a7 a8 by blast
qed

theorem C6_scatter_series_witness:
  "getitem [(''feature_1'', [F64 1, F64 3, F64 5, F64 7]),
            (''feature_2'', [F64 2, F64 4, F64 6, F64 8]),
            (''cls'', [F64 0, F64 1, F64 2, F64 (0::int)])] ''cls'' = Inr [F64 0, F64 1, F64 2, F64 0] \<and>
   getitem [(''feature_1'', [F64 1, F64 3, F64 5, F64 7]),
            (''feature_2'', [F64 2, F64 4, F64 6, F64 8]),
            (''cls'', [F64 0, F64 1, F64 2, F64 (0::int)])] ''feature_1'' = Inr [F64 1, F64 3, F64 5, F64 7] \<and>
   getitem [(''feature_1'', [F64 1, F64 3, F64 5, F64 7]),
            (''feature_2'', [F64 2, F64 4, F64 6, F64 8]),
            (''cls'', [F64 0, F64 1, F64 2, F64 (0::int)])] ''feature_2'' = Inr [F64 2, F64 4, F64 6, F64 8] \<and>
   getitem [(''feature_1'', [F64 4, F64 3, F64 (5::int)]), (''feature_2'', [F64 5, F64 4, F64 6])]
     ''feature_1'' = Inr [F64 4, F64 3, F64 5] \<and>
   getitem [(''feature_1'', [F64 4, F64 3, F64 (5::int)]), (''feature_2'', [F64 5, F64 4, F64 6])]
     ''feature_2'' = Inr [F64 5, F64 4, F64 6] \<and>
   load_inputs repo_os int_text ''/repo/scripts/plot_comparison.py'' example_files =
     Inr ([(''feature_1'', [F64 1, F64 3, F64 5, F64 7]),
           (''feature_2'', [F64 2, F64 4, F64 6, F64 8]),
           (''cls'', [F64 0, F64 1, F64 2, F64 0])],
          [(''feature_1'', [F64 1, F64 3, F64 5, F64 7]),
           (''feature_2'', [F64 2, F64 4, F64 6, F64 8]),
           (''cls'', [F64 0, F64 1, F64 2, F64 0])],
          [(''feature_1'', [F64 4, F64 3, F64 5]), (''feature_2'', [F64 5, F64 4, F64 6])]) \<and>
   comparator repo_os int_text ''/repo/scripts/plot_comparison.py'' example_files =
     ([Subplots 2 1,
       Scatter 0 [F64 1, F64 7] [F64 2, F64 8] None None None,
       Scatter 0 [F64 3] [F64 4] None None None,
       Scatter 0 [F64 5] [F64 6] None None None,
       Scatter 1 [F64 1, F64 7] [F64 2, F64 8] None None None,
       Scatter 1 [F64 3] [F64 4] None None None,
       Scatter 1 [F64 5] [F64 6] None None None,
       Scatter 0 [F64 4, F64 3, F64 5] [F64 5, F64 4, F64 6] (Some ''red'') (Some 50) (Some ''x''),
       SetTitle 0 ''Prediction'', SetTitle 1 ''Ground Truth'', PltShow],
      Inr ())"
proof -
  let ?P = "[(''feature_1'', [F64 1, F64 3, F64 5, F64 7]),
            (''feature_2'', [F64 2, F64 4, F64 6, F64 8]),
            (''cls'', [F64 0, F64 1, F64 2, F64 (0::int)])]"
  let ?C = "[(''feature_1'', [F64 4, F64 3, F64 (5::int)]), (''feature_2'', [F64 5, F64 4, F64 6])]"
  have g: "getitem ?P ''cls'' = Inr [F64 0, F64 1, F64 2, F64 0]"
    "getitem ?P ''feature_1'' = Inr [F64 1, F64 3, F64 5, F64 7]"
    "getitem ?P ''feature_2'' = Inr [F64 2, F64 4, F64 6, F64 8]"
    "getitem ?C ''feature_1'' = Inr [F64 4, F64 3, F64 5]"
    "getitem ?C ''feature_2'' = Inr [F64 5, F64 4, F64 6]"
    by (simp_all add: getitem_def)
  note inst = C6_scatter_series [of ?P "[F64 0, F64 1, F64 2, F64 0]"
      "[F64 1, F64 3, F64 5, F64 7]" "[F64 2, F64 4, F64 6, F64 8]"
      ?P "[F64 0, F64 1, F64 2, F64 0]"
      "[F64 1, F64 3, F64 5, F64 7]" "[F64 2, F64 4, F64 6, F64 8]"
      ?C "[F64 4, F64 3, F64 5]" "[F64 5, F64 4, F64 6]"
      repo_os int_text "''/repo/scripts/plot_comparison.py''" example_files]
  from inst [THEN conjunct2, THEN mp, OF example_load]
  have run: "comparator repo_os int_text ''/repo/scripts/plot_comparison.py'' example_files =
      draw_figure ?P ?P ?C"
    by (rule conjunct1)
  have cols: "getitem ?P ''cls'' = Inr [F64 0, F64 1, F64 2, F64 0] \<and>
    getitem ?P ''feature_1'' = Inr [F64 1, F64 3, F64 5, F64 7] \<and>
    getitem ?P ''feature_2'' = Inr [F64 2, F64 4, F64 6, F64 8] \<and>
    getitem ?P ''cls'' = Inr [F64 0, F64 1, F64 2, F64 0] \<and>
    getitem ?P ''feature_1'' = Inr [F64 1, F64 3, F64 5, F64 7] \<and>
    getitem ?P ''feature_2'' = Inr [F64 2, F64 4, F64 6, F64 8] \<and>
    getitem ?C ''feature_1'' = Inr [F64 4, F64 3, F64 5] \<and>
    getitem ?C ''feature_2'' = Inr [F64 5, F64 4, F64 6]"
    by (intro conjI g)
  from inst [THEN conjunct1, THEN mp, OF cols]
  have "draw_figure ?P ?P ?C =
     ([Subplots 2 1,
       Scatter 0 [F64 1, F64 7] [F64 2, F64 8] None None None,
       Scatter 0 [F64 3] [F64 4] None None None,
       Scatter 0 [F64 5] [F64 6] None None None,
       Scatter 1 [F64 1, F64 7] [F64 2, F64 8] None None None,
       Scatter 1 [F64 3] [F64 4] None None None,
       Scatter 1 [F64 5] [F64 6] None None None,
       Scatter 0 [F64 4, F64 3, F64 5] [F64 5, F64 4, F64 6] (Some ''red'') (Some 50) (Some ''x''),
       SetTitle 0 ''Prediction'', SetTitle 1 ''Ground Truth'', PltShow],
      Inr ())"
    by (elim exE conjE) (simp add: unique_def py_eq_def)
  with run have "comparator repo_os int_text ''/repo/scripts/plot_comparison.py'' example_files =
     ([Subplots 2 1,
       Scatter 0 [F64 1, F64 7] [F64 2, F64 8] None None None,
       Scatter 0 [F64 3] [F64 4] None None None,
       Scatter 0 [F64 5] [F64 6] None None None,
       Scatter 1 [F64 1, F64 7] [F64 2, F64 8] None None None,
       Scatter 1 [F64 3] [F64 4] None None None,
       Scatter 1 [F64 5] [F64 6] None None None,
       Scatter 0 [F64 4, F64 3, F64 5] [F64 5, F64 4, F64 6] (Some ''red'') (Some 50) (Some ''x''),
       SetTitle 0 ''Prediction'', SetTitle 1 ''Ground Truth'', PltShow],
      Inr ())"
    by simp
  then show ?thesis
    by (intro conjI g example_load)
qed

lemma comparator_load_error:
  "load_inputs os ft file fs = Inl e \<Longrightarrow> comparator os ft file fs = ([], Inl e)"
  by (simp add: comparator_def and_then_def lift_def)

lemma load_inputs_missing:
  assumes "fs (out_path os file @ ''/predicted_classes.csv'') = None \<or>
           fs (out_path os file @ ''/ground_truth.csv'') = None \<or>
           fs (out_path os file @ ''/clusters.csv'') = None"
  shows "\<exists>e. load_inputs os ft file fs = Inl e"
  using assms
  by (auto simp: load_inputs_def read_csv_file_def split: sum.splits option.splits)

lemma load_inputs_cong:
  assumes "fs (out_path os file @ ''/predicted_classes.csv'') =
             fs' (out_path os file @ ''/predicted_classes.csv'')"
    and "fs (out_path os file @ ''/ground_truth.csv'') = fs' (out_path os file @ ''/ground_truth.csv'')"
    and "fs (out_path os file @ ''/clusters.csv'') = fs' (out_path os file @ ''/clusters.csv'')"
  shows "load_inputs os ft file fs = load_inputs os ft file fs'"
proof -
  have a: "read_csv_file fs ft (out_path os file @ ''/predicted_classes.csv'') sep names k =
      read_csv_file fs' ft (out_path os file @ ''/predicted_classes.csv'') sep names k"
    for sep names k
    using assms(1) by (simp add: read_csv_file_def)
  have b: "read_csv_file fs ft (out_path os file @ ''/ground_truth.csv'') sep names k =
      read_csv_file fs' ft (out_path os file @ ''/ground_truth.csv'') sep names k"
    for sep names k
    using assms(2) by (simp add: read_csv_file_def)
  have c: "read_csv_file fs ft (out_path os file @ ''/clusters.csv'') sep names k =
      read_csv_file fs' ft (out_path os file @ ''/clusters.csv'') sep names k"
    for sep names k
    using assms(3) by (simp add: read_csv_file_def)
  show ?thesis
    unfolding load_inputs_def a b c ..
qed

text \<open>
  Claim C5.  The comparator reads exactly three files, all in the directory
  \<^verbatim>\<open>../files\<close> next to the script: its run depends on nothing else on disk, and it
  fails before drawing anything when one of them is missing.  All three are split at
  semicolons.  \<^verbatim>\<open>predicted_classes.csv\<close> and \<^verbatim>\<open>clusters.csv\<close> are read without a header,
  every non-blank line being a row, under the names \<open>feature_1\<close>, \<open>feature_2\<close> (and \<open>cls\<close> for
  the predictions); \<^verbatim>\<open>ground_truth.csv\<close> is read under the same three names with its first
  line left out.
\<close>

theorem C5_three_inputs:
  "(fs (out_path os file @ ''/predicted_classes.csv'') =
      fs' (out_path os file @ ''/predicted_classes.csv'') \<and>
    fs (out_path os file @ ''/ground_truth.csv'') = fs' (out_path os file @ ''/ground_truth.csv'') \<and>
    fs (out_path os file @ ''/clusters.csv'') = fs' (out_path os file @ ''/clusters.csv'') \<longrightarrow>
      comparator os ft file fs = comparator os ft file fs') \<and>
   (fs (out_path os file @ ''/predicted_classes.csv'') = None \<or>
    fs (out_path os file @ ''/ground_truth.csv'') = None \<or>
    fs (out_path os file @ ''/clusters.csv'') = None \<longrightarrow>
      (\<exists>e. comparator os ft file fs = ([], Inl e))) \<and>
   out_path os file = os_abspath os (os_dirname os file @ ''/../files'') \<and>
   (load_inputs os ft file fs = Inr (prediction, ground_truth, cluster_centers) \<longrightarrow>
      (\<exists>t1 t2 t3.
         fs (out_path os file @ ''/predicted_classes.csv'') = Some t1 \<and>
         fs (out_path os file @ ''/ground_truth.csv'') = Some t2 \<and>
         fs (out_path os file @ ''/clusters.csv'') = Some t3 \<and>
         read_csv ft (CHR '';'') [''feature_1'', ''feature_2'', ''cls''] 0 t1 = Inr prediction \<and>
         read_csv ft (CHR '';'') [''feature_1'', ''feature_2'', ''cls''] 1 t2 = Inr ground_truth \<and>
         read_csv ft (CHR '';'') [''feature_1'', ''feature_2''] 0 t3 = Inr cluster_centers \<and>
         map fst prediction = [''feature_1'', ''feature_2'', ''cls''] \<and>
         map fst ground_truth = [''feature_1'', ''feature_2'', ''cls''] \<and>
         map fst cluster_centers = [''feature_1'', ''feature_2''] \<and>
         nrows prediction = length (filter (\<lambda>l. \<not> blank_line l) (lines_of t1)) \<and>
         nrows ground_truth = length (filter (\<lambda>l. \<not> blank_line l) (tl (lines_of t2))) \<and>
         nrows cluster_centers = length (filter (\<lambda>l. \<not> blank_line l) (lines_of t3))))"
proof (intro conjI impI)
  assume "fs (out_path os file @ ''/predicted_classes.csv'') =
      fs' (out_path os file @ ''/predicted_classes.csv'') \<and>
    fs (out_path os file @ ''/ground_truth.csv'') = fs' (out_path os file @ ''/ground_truth.csv'') \<and>
    fs (out_path os file @ ''/clusters.csv'') = fs' (out_path os file @ ''/clusters.csv'')"
  then have "load_inputs os ft file fs = load_inputs os ft file fs'"
    by (intro load_inputs_cong) simp_all
  then show "comparator os ft file fs = comparator os ft file fs'"
    by (simp add: comparator_def)
next
  assume "fs (out_path os file @ ''/predicted_classes.csv'') = None \<or>
    fs (out_path os file @ ''/ground_truth.csv'') = None \<or>
    fs (out_path os file @ ''/clusters.csv'') = None"
  from load_inputs_missing [OF this] obtain e where "load_inputs os ft file fs = Inl e"
    by blast
  then show "\<exists>e. comparator os ft file fs = ([], Inl e)"
    by (blast dest: comparator_load_error)
next
  show "out_path os file = os_abspath os (os_dirname os file @ ''/../files'')"
    by (simp add: out_path_def)
next
  assume "load_inputs os ft file fs = Inr (prediction, ground_truth, cluster_centers)"
  then obtain t1 t2 t3 where f:
    "fs (out_path os file @ ''/predicted_classes.csv'') = Some t1"
    "fs (out_path os file @ ''/ground_truth.csv'') = Some t2"
    "fs (out_path os file @ ''/clusters.csv'') = Some t3"
    and r1: "read_csv ft (CHR '';'') [''feature_1'', ''feature_2'', ''cls''] 0 t1 = Inr prediction"
    and r2: "read_csv ft (CHR '';'') [''feature_1'', ''feature_2'', ''cls''] 1 t2 = Inr ground_truth"
    and r3: "read_csv ft (CHR '';'') [''feature_1'', ''feature_2''] 0 t3 = Inr cluster_centers"
    by (rule load_inputs_success)
  have n: "nrows prediction = length (filter (\<lambda>l. \<not> blank_line l) (lines_of t1))"
    "nrows ground_truth = length (filter (\<lambda>l. \<not> blank_line l) (tl (lines_of t2)))"
    "nrows cluster_centers = length (filter (\<lambda>l. \<not> blank_line l) (lines_of t3))"
    using read_csv_nrows [OF r1] read_csv_nrows [OF r2] read_csv_nrows [OF r3]
    by (simp_all add: records_def drop_Suc)
  show "\<exists>t1 t2 t3.
         fs (out_path os file @ ''/predicted_classes.csv'') = Some t1 \<and>
         fs (out_path os file @ ''/ground_truth.csv'') = Some t2 \<and>
         fs (out_path os file @ ''/clusters.csv'') = Some t3 \<and>
         read_csv ft (CHR '';'') [''feature_1'', ''feature_2'', ''cls''] 0 t1 = Inr prediction \<and>
         read_csv ft (CHR '';'') [''feature_1'', ''feature_2'', ''cls''] 1 t2 = Inr ground_truth \<and>
         read_csv ft (CHR '';'') [''feature_1'', ''feature_2''] 0 t3 = Inr cluster_centers \<and>
         map fst prediction = [''feature_1'', ''feature_2'', ''cls''] \<and>
         map fst ground_truth = [''feature_1'', ''feature_2'', ''cls''] \<and>
         map fst cluster_centers = [''feature_1'', ''feature_2''] \<and>
         nrows prediction = length (filter (\<lambda>l. \<not> blank_line l) (lines_of t1)) \<and>
         nrows ground_truth = length (filter (\<lambda>l. \<not> blank_line l) (tl (lines_of t2))) \<and>
         nrows cluster_centers = length (filter (\<lambda>l. \<not> blank_line l) (lines_of t3))"
    by (rule exI [of _ t1], rule exI [of _ t2], rule exI [of _ t3])
       (intro conjI f r1 r2 r3 n read_csv_names [OF r1] read_csv_names [OF r2]
          read_csv_names [OF r3])
qed

theorem C5_three_inputs_witness:
  "load_inputs repo_os int_text ''/repo/scripts/plot_comparison.py'' example_files =
     Inr ([(''feature_1'', [F64 1, F64 3, F64 5, F64 7]),
           (''feature_2'', [F64 2, F64 4, F64 6, F64 8]),
           (''cls'', [F64 0, F64 1, F64 2, F64 0])],
          [(''feature_1'', [F64 1, F64 3, F64 5, F64 7]),
           (''feature_2'', [F64 2, F64 4, F64 6, F64 8]),
           (''cls'', [F64 0, F64 1, F64 2, F64 0])],
          [(''feature_1'', [F64 4, F64 3, F64 5]), (''feature_2'', [F64 5, F64 4, F64 6])]) \<and>
   (\<exists>t1 t2 t3.
      example_files (out_path repo_os ''/repo/scripts/plot_comparison.py'' @ ''/predicted_classes.csv'') = Some t1 \<and>
      example_files (out_path repo_os ''/repo/scripts/plot_comparison.py'' @ ''/ground_truth.csv'') = Some t2 \<and>
      example_files (out_path repo_os ''/repo/scripts/plot_comparison.py'' @ ''/clusters.csv'') = Some t3 \<and>
      nrows [(''feature_1'', [F64 1, F64 3, F64 5, F64 7]),
           (''feature_2'', [F64 2, F64 4, F64 6, F64 8]),
           (''cls'', [F64 0, F64 1, F64 2, F64 (0::int)])] =
        length (filter (\<lambda>l. \<not> blank_line l) (tl (lines_of t2))) \<and>
      nrows [(''feature_1'', [F64 4, F64 3, F64 (5::int)]), (''feature_2'', [F64 5, F64 4, F64 6])] =
        length (filter (\<lambda>l. \<not> blank_line l) (lines_of t3)))"
  using C5_three_inputs [of example_files repo_os "''/repo/scripts/plot_comparison.py''"
      example_files int_text
      "[(''feature_1'', [F64 1, F64 3, F64 5, F64 7]),
           (''feature_2'', [F64 2, F64 4, F64 6, F64 8]),
           (''cls'', [F64 0, F64 1, F64 2, F64 0])]"
      "[(''feature_1'', [F64 1, F64 3, F64 5, F64 7]),
           (''feature_2'', [F64 2, F64 4, F64 6, F64 8]),
           (''cls'', [F64 0, F64 1, F64 2, F64 0])]"
      "[(''feature_1'', [F64 4, F64 3, F64 5]), (''feature_2'', [F64 5, F64 4, F64 6])]"]
    example_load
  by blast

lemma lines_of_first:
  assumes "LF \<notin> set first"
  shows "lines_of (first @ LF # rest) = first # lines_of rest"
proof -
  have s: "split_on LF (first @ LF # rest) = first # split_on LF rest"
    using assms by (rule split_on_append)
  have ne: "split_on LF rest \<noteq> []" by (rule split_on_not_Nil)
  show ?thesis
    using ne by (simp add: lines_of_def s Let_def)
qed

lemma records_skip_first:
  "LF \<notin> set first \<Longrightarrow> records (Suc 0) (first @ LF # rest) = records 0 rest"
  by (simp add: records_def lines_of_first)

lemma read_csv_skip_first:
  "LF \<notin> set first \<Longrightarrow>
   read_csv ft sep names (Suc 0) (first @ LF # rest) = read_csv ft sep names 0 rest"
  by (simp add: read_csv_def records_skip_first)

text \<open>
  Claim C9, as amended.  The claim says that the comparator holds as many ground-truth
  rows as the file has lines, minus one.  That fails for a file with a blank line,
  which the reader drops too (\<open>C9_blank_line_counterexample\<close> below).  What holds:
  the first line is skipped whatever it holds, and the rows are the non-blank lines
  after it.  So the count is the line count minus one when no later line is blank, and
  the frame is the one read from the rest of the file with nothing skipped: a file
  without a header line loses its first data row.  The reader is modelled for text with
  line-feed line ends and no quoted fields.
\<close>

theorem C9_first_line_skipped:
  assumes "load_inputs os ft file fs = Inr (prediction, ground_truth, cluster_centers)"
    and "fs (out_path os file @ ''/ground_truth.csv'') = Some text"
    and "CHR 0x22 \<notin> set text" and "CR \<notin> set text"
  shows "nrows ground_truth = length (filter (\<lambda>l. \<not> blank_line l) (tl (lines_of text))) \<and>
     (lines_of text \<noteq> [] \<and> \<not> list_ex blank_line (tl (lines_of text)) \<longrightarrow>
        int (nrows ground_truth) = int (length (lines_of text)) - 1) \<and>
     (\<forall>first rest. text = first @ LF # rest \<and> LF \<notin> set first \<longrightarrow>
        read_csv ft (CHR '';'') [''feature_1'', ''feature_2'', ''cls''] 0 rest = Inr ground_truth \<and>
        (\<forall>other. LF \<notin> set other \<longrightarrow>
           read_csv ft (CHR '';'') [''feature_1'', ''feature_2'', ''cls''] 1 (other @ LF # rest) =
             Inr ground_truth))"
proof -
  from assms(1) obtain t2 where
    "fs (out_path os file @ ''/ground_truth.csv'') = Some t2"
    "read_csv ft (CHR '';'') [''feature_1'', ''feature_2'', ''cls''] 1 t2 = Inr ground_truth"
    by (rule load_inputs_success)
  with assms(2) have rd:
    "read_csv ft (CHR '';'') [''feature_1'', ''feature_2'', ''cls''] 1 text = Inr ground_truth"
    by simp
  have n: "nrows ground_truth = length (filter (\<lambda>l. \<not> blank_line l) (tl (lines_of text)))"
    using read_csv_nrows [OF rd] by (simp add: records_def drop_Suc)
  have m: "int (nrows ground_truth) = int (length (lines_of text)) - 1"
    if "lines_of text \<noteq> [] \<and> \<not> list_ex blank_line (tl (lines_of text))"
  proof -
    from that have "filter (\<lambda>l. \<not> blank_line l) (tl (lines_of text)) = tl (lines_of text)"
      by (simp add: list_ex_iff)
    with n that show ?thesis by (cases "lines_of text") simp_all
  qed
  have f: "read_csv ft (CHR '';'') [''feature_1'', ''feature_2'', ''cls''] 0 rest = Inr ground_truth \<and>
        (\<forall>other. LF \<notin> set other \<longrightarrow>
           read_csv ft (CHR '';'') [''feature_1'', ''feature_2'', ''cls''] 1 (other @ LF # rest) =
             Inr ground_truth)"
    if "text = first @ LF # rest \<and> LF \<notin> set first" for first rest
    using that rd by (simp add: read_csv_skip_first)
  from n m f show ?thesis by blast
qed

theorem C9_first_line_skipped_witness:
  "load_inputs repo_os int_text ''/repo/scripts/plot_comparison.py'' example_files =
     Inr ([(''feature_1'', [F64 1, F64 3, F64 5, F64 7]),
           (''feature_2'', [F64 2, F64 4, F64 6, F64 8]),
           (''cls'', [F64 0, F64 1, F64 2, F64 0])],
          [(''feature_1'', [F64 1, F64 3, F64 5, F64 7]),
           (''feature_2'', [F64 2, F64 4, F64 6, F64 8]),
           (''cls'', [F64 0, F64 1, F64 2, F64 0])],
          [(''feature_1'', [F64 4, F64 3, F64 5]), (''feature_2'', [F64 5, F64 4, F64 6])]) \<and>
   example_files (out_path repo_os ''/repo/scripts/plot_comparison.py'' @ ''/ground_truth.csv'') =
     Some (unlines [''feature_0;feature_1;cls'', ''1;2;0'', ''3;4;1'', ''5;6;2'', ''7;8;0'']) \<and>
   CHR 0x22 \<notin> set (unlines [''feature_0;feature_1;cls'', ''1;2;0'', ''3;4;1'', ''5;6;2'', ''7;8;0'']) \<and>
   CR \<notin> set (unlines [''feature_0;feature_1;cls'', ''1;2;0'', ''3;4;1'', ''5;6;2'', ''7;8;0'']) \<and>
   nrows [(''feature_1'', [F64 1, F64 3, F64 5, F64 7]),
           (''feature_2'', [F64 2, F64 4, F64 6, F64 8]),
           (''cls'', [F64 0, F64 1, F64 2, F64 (0::int)])] =
     length (filter (\<lambda>l. \<not> blank_line l)
       (tl (lines_of (unlines [''feature_0;feature_1;cls'', ''1;2;0'', ''3;4;1'', ''5;6;2'', ''7;8;0'']))))"
proof -
  have f: "example_files (out_path repo_os ''/repo/scripts/plot_comparison.py'' @ ''/ground_truth.csv'') =
     Some (unlines [''feature_0;feature_1;cls'', ''1;2;0'', ''3;4;1'', ''5;6;2'', ''7;8;0''])"
    by (simp add: example_out_path example_files_def)
  have q: "CHR 0x22 \<notin> set (unlines [''feature_0;feature_1;cls'', ''1;2;0'', ''3;4;1'', ''5;6;2'', ''7;8;0''])"
    and c: "CR \<notin> set (unlines [''feature_0;feature_1;cls'', ''1;2;0'', ''3;4;1'', ''5;6;2'', ''7;8;0''])"
    by (simp_all add: unlines_def LF_def CR_def)
  from C9_first_line_skipped [OF example_load f q c] example_load f q c
  show ?thesis by blast
qed

lemma blank_tail_lines:
  "lines_of (unlines [''feature_0;feature_1;cls'', ''1;2;0'', ''3;4;1'', '''']) =
     [''feature_0;feature_1;cls'', ''1;2;0'', ''3;4;1'', '''']"
  by (rule lines_of_unlines) (simp add: LF_def)

lemma blank_tail_read:
  "read_csv int_text (CHR '';'') [''feature_1'', ''feature_2'', ''cls''] (Suc 0)
     (unlines [''feature_0;feature_1;cls'', ''1;2;0'', ''3;4;1'', '''']) =
   Inr [(''feature_1'', [F64 1, F64 3]), (''feature_2'', [F64 2, F64 4]), (''cls'', [F64 0, F64 1])]"
proof -
  have u: "[0..<3] = [0, 1, 2]" by (simp add: upt_rec)
  show ?thesis
    by (simp add: read_csv_def records_def blank_tail_lines blank_line_def u field_def
        to_float_digits)
qed

theorem C9_blank_line_counterexample:
  "load_inputs repo_os int_text ''/repo/scripts/plot_comparison.py''
     (example_files(''/repo/files/ground_truth.csv'' \<mapsto>
        unlines [''feature_0;feature_1;cls'', ''1;2;0'', ''3;4;1'', ''''])) =
     Inr ([(''feature_1'', [F64 1, F64 3, F64 5, F64 7]),
           (''feature_2'', [F64 2, F64 4, F64 6, F64 8]),
           (''cls'', [F64 0, F64 1, F64 2, F64 0])],
          [(''feature_1'', [F64 1, F64 3]), (''feature_2'', [F64 2, F64 4]),
           (''cls'', [F64 0, F64 1])],
          [(''feature_1'', [F64 4, F64 3, F64 5]), (''feature_2'', [F64 5, F64 4, F64 6])]) \<and>
   nrows [(''feature_1'', [F64 1, F64 3]), (''feature_2'', [F64 2, F64 4]),
          (''cls'', [F64 0, F64 (1::int)])] = 2 \<and>
   length (lines_of (unlines [''feature_0;feature_1;cls'', ''1;2;0'', ''3;4;1'', ''''])) = 4 \<and>
   int (nrows [(''feature_1'', [F64 1, F64 3]), (''feature_2'', [F64 2, F64 4]),
          (''cls'', [F64 0, F64 (1::int)])]) \<noteq>
     int (length (lines_of (unlines [''feature_0;feature_1;cls'', ''1;2;0'', ''3;4;1'', '''']))) - 1"
  by (simp add: load_inputs_def read_csv_file_def example_out_path example_files_def
      example_prediction blank_tail_read example_clusters blank_tail_lines nrows_def)

section \<open>The comparator: what it refuses\<close>













section \<open>The round trip through ground\_truth.csv\<close>













end
